theory Spec2Isabelle
  imports Complex_Main "HOL-Library.Word" "HOL-Library.Signed_Division"
begin

section \<open>Filesystem asset store: \<^verbatim>\<open>pkg/core/asset/fs/fs.go\<close>\<close>

text \<open>
  Go's \<^verbatim>\<open>int64\<close> is a 64-bit two's complement word: \<open>-\<close> wraps, and the
  comparisons of the source are the signed ones (\<open>\<le>s\<close>, \<open><s\<close>).
\<close>

type_synonym int64 = "64 word"

text \<open>
  \<^verbatim>\<open>asset.FileRange\<close>, \<^verbatim>\<open>asset.FileRangedGetResult\<close> and
  \<^verbatim>\<open>asset.FileRangeNotAcceptedError\<close> are declared in package \<^verbatim>\<open>asset\<close>;
  the fields below are the ones \<^verbatim>\<open>fs.go\<close> reads and writes.
\<close>

record FileRange =
  From :: int64
  To :: int64

text \<open>
  An open \<^verbatim>\<open>*os.File\<close>: what \<^verbatim>\<open>Stat\<close> answers (an error or the size), which
  offsets \<^verbatim>\<open>Seek(off, 0)\<close> refuses, and the current read offset.
\<close>

record File =
  stat_result :: "string + int64"
  seek_error :: "int64 \<Rightarrow> string option"
  offset :: int64

record FileRangedGetResult =
  ReadCloser :: File
  AcceptedRange :: FileRange
  TotalSize :: int64

datatype asset_error = OSError string | FileRangeNotAcceptedError FileRange

text \<open>The operating system as the store sees it: path arithmetic and \<^verbatim>\<open>os.Open\<close>.\<close>

record OS =
  filepath_Join :: "string \<Rightarrow> string \<Rightarrow> string"
  filepath_Clean :: "string \<Rightarrow> string"
  os_Open :: "string \<Rightarrow> string + File"

record AssetStore =
  dir :: string
  url_prefix :: string
  secret :: string
  public :: bool

definition Stat :: "File \<Rightarrow> string + int64" where
  "Stat file = stat_result file"

definition Seek :: "File \<Rightarrow> int64 \<Rightarrow> string + File" where
  "Seek file off =
     (case seek_error file off of
        Some err \<Rightarrow> Inl err
      | None \<Rightarrow> Inr (file\<lparr>offset := off\<rparr>))"

definition GetRangedFileReader ::
  "OS \<Rightarrow> AssetStore \<Rightarrow> string \<Rightarrow> FileRange \<Rightarrow> asset_error + FileRangedGetResult" where
  "GetRangedFileReader os s name fileRange =
     (let path = filepath_Join os (dir s) name in
      case os_Open os (filepath_Clean os path) of
        Inl err \<Rightarrow> Inl (OSError err)
      | Inr file \<Rightarrow>
          (case Stat file of
             Inl err \<Rightarrow> Inl (OSError err)
           | Inr fileSize \<Rightarrow>
               if fileSize \<le>s From fileRange
               then Inl (FileRangeNotAcceptedError fileRange)
               else
                 (case Seek file (From fileRange) of
                    Inl err \<Rightarrow> Inl (OSError err)
                  | Inr file' \<Rightarrow>
                      let acceptedRange = \<lparr>From = From fileRange, To = To fileRange\<rparr>;
                          acceptedRange' =
                            (if fileSize - 1 <s To acceptedRange
                             then acceptedRange\<lparr>To := fileSize - 1\<rparr>
                             else acceptedRange)
                      in Inr \<lparr>ReadCloser = file',
                              AcceptedRange = acceptedRange',
                              TotalSize = fileSize\<rparr>)))"

section \<open>Logger registry: \<^verbatim>\<open>pkg/server/logging/logging.go\<close>\<close>

text \<open>
  A \<^verbatim>\<open>*logrus.Logger\<close> is a pointer: the registry maps names to addresses, and the
  logger objects live in a heap indexed by address. \<^verbatim>\<open>logrus.New()\<close> allocates the
  next address and stores a logger with the library's defaults there. The package's
  mutex serialises the calls; one call is one step on the state.
\<close>

record Logrus =
  Out :: string
  Formatter :: string
  Level :: nat

type_synonym addr = nat

record logging_state =
  loggers :: "string \<rightharpoonup> addr"
  configureLoggerHandler :: "(string \<Rightarrow> Logrus \<Rightarrow> Logrus) option"
  heap :: "Logrus list"

definition logrus_StandardLogger :: Logrus where
  "logrus_StandardLogger = \<lparr>Out = ''stderr'', Formatter = ''text'', Level = 4\<rparr>"

definition logrus_New :: "logging_state \<Rightarrow> addr option \<times> logging_state" where
  "logrus_New st =
     (Some (length (heap st)),
      st\<lparr>heap := heap st @ [\<lparr>Out = ''stderr'', Formatter = ''text'', Level = 4\<rparr>]\<rparr>)"

text \<open>\<^verbatim>\<open>init()\<close>: the registry starts with the standard logger under the empty name.\<close>

definition init_logging :: logging_state where
  "init_logging =
     \<lparr>loggers = [[] \<mapsto> 0], configureLoggerHandler = None, heap = [logrus_StandardLogger]\<rparr>"

definition SetConfigureLoggerHandler ::
  "(string \<Rightarrow> Logrus \<Rightarrow> Logrus) option \<Rightarrow> logging_state \<Rightarrow> logging_state" where
  "SetConfigureLoggerHandler handler st = st\<lparr>configureLoggerHandler := handler\<rparr>"

text \<open>
  \<^verbatim>\<open>Logger(name)\<close> returns the logger's address, or \<open>Inl\<close> the message of its panic.
  The handler receives the pointer and configures the object behind it.
\<close>

definition Logger :: "string \<Rightarrow> logging_state \<Rightarrow> (string + addr) \<times> logging_state" where
  "Logger name st =
     (case loggers st name of
        Some logger \<Rightarrow> (Inr logger, st)
      | None \<Rightarrow>
          (case logrus_New st of
             (None, st1) \<Rightarrow> (Inl ''logrus.New() returns nil'', st1)
           | (Some logger, st1) \<Rightarrow>
               let st2 =
                     (case configureLoggerHandler st1 of
                        None \<Rightarrow> st1
                      | Some handler \<Rightarrow>
                          st1\<lparr>heap := (heap st1)[logger := handler name (heap st1 ! logger)]\<rparr>)
               in (Inr logger, st2\<lparr>loggers := (loggers st2)(name \<mapsto> logger)\<rparr>)))"

section \<open>Request router: \<^verbatim>\<open>commonRouter\<close> of package \<^verbatim>\<open>router\<close>\<close>

subsection \<open>Data\<close>

text \<open>
  Package \<^verbatim>\<open>skyerr\<close>: an error is a code and a message. The router names two codes;
  every other code of the package is \<open>skyerr_OtherCode\<close> with its number.
\<close>

datatype ErrorCode = skyerr_ResponseTimeout | skyerr_UndefinedOperation | skyerr_OtherCode nat

datatype Error = skyerr_NewError (Code: ErrorCode) (Message: string)

text \<open>
  The value a panic carries: \<^verbatim>\<open>nil\<close> (from \<^verbatim>\<open>panic(nil)\<close>), an \<^verbatim>\<open>error\<close>, or any
  other value. A call either returns or panics.
\<close>

datatype PanicValue = PanicNil | PanicError string | PanicOther string

datatype 'a outcome = Returned 'a | Panicked PanicValue

text \<open>
  \<^verbatim>\<open>recover()\<close> in a deferred function, given the panic in flight if there is one: it
  stops the panic and returns its value. Before Go 1.21, the language this code base
  is written in, the value of \<^verbatim>\<open>panic(nil)\<close> is \<^verbatim>\<open>nil\<close> itself, so the caller's test
  \<^verbatim>\<open>r != nil\<close> cannot tell it from no panic at all.
\<close>

definition go_recover :: "PanicValue option \<Rightarrow> PanicValue option" where
  "go_recover panicking =
     (case panicking of
        None \<Rightarrow> None
      | Some PanicNil \<Rightarrow> None
      | Some (PanicError m) \<Rightarrow> Some (PanicError m)
      | Some (PanicOther m) \<Rightarrow> Some (PanicOther m))"

text \<open>
  The \<^verbatim>\<open>http.ResponseWriter\<close> of the connection: its header map, the calls of
  \<^verbatim>\<open>WriteHeader\<close> it accepted, in order, and the values handed to the JSON encoder
  that writes to it, in order. There is one per request; a \<^verbatim>\<open>Response\<close> either holds
  the reference to it or \<^verbatim>\<open>nil\<close>. An \<open>Entity\<close> is the \<^verbatim>\<open>Response\<close> as it stands
  when it is handed to the encoder, taken by its error and its result; how the encoder
  renders the two is decided by the declaration of \<^verbatim>\<open>Response\<close>.
\<close>

record Entity =
  json_error :: "Error option"
  json_result :: "string option"

record ResponseWriter =
  header :: "string \<rightharpoonup> string"
  statuses :: "int list"
  bodies :: "Entity list"

datatype WriterRef = ConnWriter

text \<open>
  Modelled from the spec: the declaration of \<^verbatim>\<open>Response\<close> is not among the sources.
  The spec gives it a write target, an optional error and the result body; the router
  reads and writes \<^verbatim>\<open>Err\<close> and \<^verbatim>\<open>writer\<close>.
\<close>

record Response =
  Err :: "Error option"
  Result :: "string option"
  writer :: "WriterRef option"

record Payload =
  Data :: string
  RequestTag :: "string option"

text \<open>
  \<^verbatim>\<open>Processor.Preprocess(payload, resp) int\<close> and \<^verbatim>\<open>Handler.Handle(payload, resp)\<close>
  receive pointers: they may change the payload and the response, and they may panic,
  in which case what they changed before stays changed.
\<close>

type_synonym 'p Processor = "'p \<Rightarrow> Response \<Rightarrow> int outcome \<times> 'p \<times> Response"

type_synonym 'p Handler = "'p \<Rightarrow> Response \<Rightarrow> unit outcome \<times> 'p \<times> Response"

record 'p routeConfig =
  Tag :: string
  Preprocessors :: "'p Processor list"
  Handler :: "'p Handler"

type_synonym Request = string

type_synonym Duration = int64

record commonRouter =
  payloadFunc :: "Request \<Rightarrow> (string + Payload) outcome"
  matchHandlerFunc :: "Payload \<Rightarrow> (string + Payload routeConfig) outcome"
  ResponseTimeout :: Duration

text \<open>
  Functions of this package and of \<^verbatim>\<open>skyerr\<close>, \<^verbatim>\<open>skyversion\<close> and
  \<^verbatim>\<open>encoding/json\<close> that the router calls and whose bodies are not among the sources;
  they are parameters of the model, and they are taken to return. \<open>encodeError\<close> is
  the error \<^verbatim>\<open>json.NewEncoder(w).Encode\<close> returns for a value, if any.

  \<open>logging_CreateLogger\<close> is how line 67 of \<^verbatim>\<open>HandlePayload\<close>, the call
  \<^verbatim>\<open>logging.CreateLogger(payload.Context(), "router")\<close>, ends in the state the logging
  package is in: it returns the log entry, or it panics, as \<^verbatim>\<open>Logger\<close> does for a name
  not yet registered when \<^verbatim>\<open>logrus.New()\<close> returns \<^verbatim>\<open>nil\<close> or when the installed
  configure handler panics. The entry is used for logging only, and the logging calls
  on it are taken to return.
\<close>

record RouterDeps =
  defaultStatusCode :: "Error \<Rightarrow> int"
  errorFromRecoveringPanic :: "PanicValue \<Rightarrow> Error"
  NewRequestJSONInvalidErr :: "string \<Rightarrow> Error"
  skyversion_Version :: string
  encodeError :: "Entity \<Rightarrow> string option"
  logging_CreateLogger :: "unit outcome"

subsection \<open>\<^verbatim>\<open>callHandler\<close>\<close>

text \<open>
  The \<^verbatim>\<open>for\<close> loop of \<^verbatim>\<open>callHandler\<close>. It leaves by the \<^verbatim>\<open>return\<close> inside the
  loop (\<open>Halted\<close>, with the status to return), by exhausting the processors
  (\<open>Completed\<close>, with the last status hint), or by a panic of a processor
  (\<open>Aborted\<close>, with the panic value and the named result \<^verbatim>\<open>httpStatus\<close> as it stands:
  the assignment of the panicking call has not taken place).
\<close>

datatype loop_exit = Halted int | Completed int | Aborted PanicValue int

fun preprocess_loop ::
  "(Error \<Rightarrow> int) \<Rightarrow> 'p Processor list \<Rightarrow> int \<Rightarrow> 'p \<Rightarrow> Response
     \<Rightarrow> loop_exit \<times> 'p \<times> Response" where
  "preprocess_loop dsc [] httpStatus payload resp = (Completed httpStatus, payload, resp)"
| "preprocess_loop dsc (p # pp) httpStatus payload resp =
     (case p payload resp of
        (Panicked v, payload', resp') \<Rightarrow> (Aborted v httpStatus, payload', resp')
      | (Returned hint, payload', resp') \<Rightarrow>
          (case Err resp' of
             Some e \<Rightarrow> (Halted (if hint = 200 then dsc e else hint), payload', resp')
           | None \<Rightarrow> preprocess_loop dsc pp hint payload' resp'))"

text \<open>
  The body of \<^verbatim>\<open>callHandler\<close> without its deferred function: it returns a status, or
  it panics with the named result \<^verbatim>\<open>httpStatus\<close> holding what was last assigned to it.
\<close>

datatype body_exit = BodyReturned int | BodyPanicked PanicValue int

definition callHandler_body ::
  "RouterDeps \<Rightarrow> 'p Handler \<Rightarrow> 'p Processor list \<Rightarrow> 'p \<Rightarrow> Response
     \<Rightarrow> body_exit \<times> 'p \<times> Response" where
  "callHandler_body deps handler pp payload resp =
     (case preprocess_loop (defaultStatusCode deps) pp 200 payload resp of
        (Aborted v httpStatus, payload', resp') \<Rightarrow> (BodyPanicked v httpStatus, payload', resp')
      | (Halted httpStatus, payload', resp') \<Rightarrow> (BodyReturned httpStatus, payload', resp')
      | (Completed httpStatus, payload', resp') \<Rightarrow>
          (case handler payload' resp' of
             (Panicked v, payload'', resp'') \<Rightarrow> (BodyPanicked v httpStatus, payload'', resp'')
           | (Returned _, payload'', resp'') \<Rightarrow> (BodyReturned httpStatus, payload'', resp'')))"

text \<open>
  The deferred function of \<^verbatim>\<open>callHandler\<close>, given the panic in flight if any: a
  recovered value that is not \<^verbatim>\<open>nil\<close> becomes \<^verbatim>\<open>resp.Err\<close> and the status of that
  error; otherwise the named result and the response stay as they are.
\<close>

definition callHandler_deferred ::
  "RouterDeps \<Rightarrow> PanicValue option \<Rightarrow> int \<Rightarrow> Response \<Rightarrow> int \<times> Response" where
  "callHandler_deferred deps panicking httpStatus resp =
     (case go_recover panicking of
        Some r \<Rightarrow>
          let e = errorFromRecoveringPanic deps r
          in (defaultStatusCode deps e, resp\<lparr>Err := Some e\<rparr>)
      | None \<Rightarrow> (httpStatus, resp))"

text \<open>
  \<^verbatim>\<open>callHandler\<close>: the body, then the deferred function. The call of
  \<^verbatim>\<open>logging.CreateLogger\<close> at its head asks for the logger \<^verbatim>\<open>"router"\<close> that the
  same call at the head of \<^verbatim>\<open>HandlePayload\<close> has registered, so it returns.
\<close>

definition callHandler ::
  "RouterDeps \<Rightarrow> 'p Handler \<Rightarrow> 'p Processor list \<Rightarrow> 'p \<Rightarrow> Response \<Rightarrow> int \<times> 'p \<times> Response" where
  "callHandler deps handler pp payload resp =
     (case callHandler_body deps handler pp payload resp of
        (BodyReturned httpStatus, payload', resp') \<Rightarrow>
          (case callHandler_deferred deps None httpStatus resp' of
             (httpStatus', resp'') \<Rightarrow> (httpStatus', payload', resp''))
      | (BodyPanicked v httpStatus, payload', resp') \<Rightarrow>
          (case callHandler_deferred deps (Some v) httpStatus resp' of
             (httpStatus', resp'') \<Rightarrow> (httpStatus', payload', resp'')))"

subsection \<open>Writing the response\<close>

definition Header_Set :: "string \<Rightarrow> string \<Rightarrow> ResponseWriter \<Rightarrow> ResponseWriter" where
  "Header_Set k v w = w\<lparr>header := (header w)(k \<mapsto> v)\<rparr>"

text \<open>
  \<^verbatim>\<open>WriteHeader\<close> of the \<^verbatim>\<open>net/http\<close> server's writer: it panics on a status
  outside 100..999 (the message names the code) and records any other.
\<close>

definition invalid_WriteHeader_code :: PanicValue where
  "invalid_WriteHeader_code = PanicOther ''invalid WriteHeader code''"

definition WriteHeader :: "int \<Rightarrow> ResponseWriter \<Rightarrow> unit outcome \<times> ResponseWriter" where
  "WriteHeader httpStatus w =
     (if httpStatus < 100 \<or> 999 < httpStatus
      then (Panicked invalid_WriteHeader_code, w)
      else (Returned (), w\<lparr>statuses := statuses w @ [httpStatus]\<rparr>))"

text \<open>The \<^verbatim>\<open>Response\<close> as it is handed to the JSON encoder.\<close>

definition entity_of :: "Response \<Rightarrow> Entity" where
  "entity_of resp = \<lparr>json_error = Err resp, json_result = Result resp\<rparr>"

definition writeEntity ::
  "RouterDeps \<Rightarrow> WriterRef option \<Rightarrow> Response \<Rightarrow> ResponseWriter \<Rightarrow> string option \<times> ResponseWriter" where
  "writeEntity deps w i conn =
     (case w of
        None \<Rightarrow> (Some ''writer is nil'', conn)
      | Some _ \<Rightarrow>
          (case encodeError deps (entity_of i) of
             Some err \<Rightarrow> (Some err, conn)
           | None \<Rightarrow> (None, conn\<lparr>bodies := bodies conn @ [entity_of i]\<rparr>)))"

text \<open>
  Modelled from the spec: \<^verbatim>\<open>Response.Writer()\<close> is not among the sources. The spec
  says that the write target is consumed at most once and is nulled when the response is
  finalized: the method hands out the target and leaves \<^verbatim>\<open>nil\<close> behind.
\<close>

definition Writer :: "Response \<Rightarrow> WriterRef option \<times> Response" where
  "Writer resp = (writer resp, resp\<lparr>writer := None\<rparr>)"

subsection \<open>The deadline\<close>

text \<open>
  \<^verbatim>\<open>Duration.Seconds()\<close>: whole seconds plus the nanoseconds left, with Go's truncating
  division. The source computes in \<^verbatim>\<open>float64\<close>; both summands are exact there up to one
  rounding of the quotient, which keeps its sign, so the sign of the real number below is
  the sign the source tests.
\<close>

definition Seconds :: "Duration \<Rightarrow> real" where
  "Seconds d =
     real_of_int (sint d sdiv 1000000000) + real_of_int (sint d smod 1000000000) / 1000000000"

text \<open>
  The channel \<^verbatim>\<open>getTimeoutChan\<close> returns: \<^verbatim>\<open>time.After(d)\<close>, which delivers one value
  once \<open>d\<close> has elapsed, or a fresh \<^verbatim>\<open>make(chan time.Time)\<close>, on which nothing is ever
  sent.
\<close>

datatype TimeoutChan = time_After Duration | make_chan

definition getTimeoutChan :: "Duration \<Rightarrow> TimeoutChan" where
  "getTimeoutChan timeout = (if Seconds timeout > 0 then time_After timeout else make_chan)"

subsection \<open>\<^verbatim>\<open>HandlePayload\<close>\<close>

text \<open>
  What a call leaves behind: the \<^verbatim>\<open>Response\<close>, the connection's writer, and the panic
  that leaves the call, if any.
\<close>

record Finalized =
  fin_resp :: Response
  fin_conn :: ResponseWriter
  fin_panic :: "PanicValue option"

text \<open>
  The deferred function of \<^verbatim>\<open>HandlePayload\<close>, in three parts. The first part is lines
  70 to 89: \<^verbatim>\<open>recover()\<close> on the panic in flight, if any; the write target is taken, and
  if there is none the function returns (the first component is \<open>None\<close>); otherwise
  the content type is set and, when \<open>timedOut\<close> is set, \<^verbatim>\<open>resp.Err\<close> is overridden.
\<close>

definition deferred_begin ::
  "RouterDeps \<Rightarrow> PanicValue option \<Rightarrow> bool \<Rightarrow> Response \<Rightarrow> ResponseWriter
     \<Rightarrow> WriterRef option \<times> Response \<times> ResponseWriter" where
  "deferred_begin deps panicking timedOut resp conn =
     (let resp1 = (case go_recover panicking of
                     Some r \<Rightarrow> resp\<lparr>Err := Some (errorFromRecoveringPanic deps r)\<rparr>
                   | None \<Rightarrow> resp);
          (writer, resp2) = Writer resp1
      in case writer of
           None \<Rightarrow> (None, resp2, conn)
         | Some w \<Rightarrow>
             let conn1 = Header_Set ''Content-Type'' ''application/json'' conn;
                 resp3 = (if timedOut
                          then resp2\<lparr>Err := Some (skyerr_NewError skyerr_ResponseTimeout
                                                   ''Service taking too long to respond.'')\<rparr>
                          else resp2)
             in (Some w, resp3, conn1))"

text \<open>
  The second part is lines 91 to 95: the status is resolved from \<^verbatim>\<open>resp.Err\<close> and
  \<^verbatim>\<open>httpStatus\<close> as they stand now, and written.
\<close>

definition deferred_status ::
  "RouterDeps \<Rightarrow> int \<Rightarrow> Response \<Rightarrow> ResponseWriter \<Rightarrow> unit outcome \<times> ResponseWriter" where
  "deferred_status deps httpStatus resp conn =
     WriteHeader
       (case Err resp of
          Some e \<Rightarrow> if 200 \<le> httpStatus \<and> httpStatus \<le> 299
                    then defaultStatusCode deps e else httpStatus
        | None \<Rightarrow> httpStatus)
       conn"

text \<open>
  The third part is lines 96 to 98: the \<^verbatim>\<open>Response\<close> as it stands now is encoded; an
  error of \<^verbatim>\<open>writeEntity\<close> is raised as a panic.
\<close>

definition deferred_write ::
  "RouterDeps \<Rightarrow> WriterRef \<Rightarrow> Response \<Rightarrow> ResponseWriter \<Rightarrow> Finalized" where
  "deferred_write deps w resp conn =
     (case writeEntity deps (Some w) resp conn of
        (Some err, conn') \<Rightarrow>
          \<lparr>fin_resp = resp, fin_conn = conn', fin_panic = Some (PanicError err)\<rparr>
      | (None, conn') \<Rightarrow>
          \<lparr>fin_resp = resp, fin_conn = conn', fin_panic = None\<rparr>)"

text \<open>The second and the third part with nothing in between.\<close>

definition deferred_finish ::
  "RouterDeps \<Rightarrow> WriterRef \<Rightarrow> int \<Rightarrow> Response \<Rightarrow> ResponseWriter \<Rightarrow> Finalized" where
  "deferred_finish deps w httpStatus resp conn =
     (case deferred_status deps httpStatus resp conn of
        (Panicked v, conn') \<Rightarrow> \<lparr>fin_resp = resp, fin_conn = conn', fin_panic = Some v\<rparr>
      | (Returned _, conn') \<Rightarrow> deferred_write deps w resp conn')"

text \<open>
  The deferred function run in one piece. \<open>panicking\<close> is the panic in flight when
  it starts; \<open>timedOut\<close> and \<open>httpStatus\<close> are the captured variables as they stand.
\<close>

definition HandlePayload_deferred ::
  "RouterDeps \<Rightarrow> PanicValue option \<Rightarrow> bool \<Rightarrow> int \<Rightarrow> Response \<Rightarrow> ResponseWriter \<Rightarrow> Finalized" where
  "HandlePayload_deferred deps panicking timedOut httpStatus resp conn =
     (case deferred_begin deps panicking timedOut resp conn of
        (None, resp', conn') \<Rightarrow> \<lparr>fin_resp = resp', fin_conn = conn', fin_panic = None\<rparr>
      | (Some w, resp', conn') \<Rightarrow> deferred_finish deps w httpStatus resp' conn')"

text \<open>
  The goroutine runs \<^verbatim>\<open>callHandler\<close> while \<^verbatim>\<open>HandlePayload\<close> waits in \<^verbatim>\<open>select\<close>.
  In \<open>HandlePayload\<close> below the calls the goroutine makes (each processor, then the
  handler) are atomic steps on the shared \<^verbatim>\<open>Response\<close>, and the deferred function is
  one step too; the runs in which the goroutine goes on while the deferred function is
  under way are those of \<open>HandlePayload_race\<close> further down. After \<open>k\<close> of
  these calls have returned the goroutine has either left \<^verbatim>\<open>callHandler\<close>, and
  \<^verbatim>\<open>httpStatus\<close> holds its result, or it is still inside (\<open>None\<close>): then the
  \<^verbatim>\<open>Response\<close> is as the first \<open>k\<close> processors left it and \<^verbatim>\<open>httpStatus\<close> still
  holds its initial value.
\<close>

definition worker_after ::
  "RouterDeps \<Rightarrow> nat \<Rightarrow> 'p Handler \<Rightarrow> 'p Processor list \<Rightarrow> 'p \<Rightarrow> Response
     \<Rightarrow> int option \<times> 'p \<times> Response" where
  "worker_after deps k handler pp payload resp =
     (let finished =
            (case callHandler deps handler pp payload resp of
               (httpStatus, payload', resp') \<Rightarrow> (Some httpStatus, payload', resp'))
      in if k \<le> length pp
         then (case preprocess_loop (defaultStatusCode deps) (take k pp) 200 payload resp of
                 (Completed _, payload', resp') \<Rightarrow> (None, payload', resp')
               | _ \<Rightarrow> finished)
         else finished)"

text \<open>
  Which case of the \<^verbatim>\<open>select\<close> is taken is the scheduler's choice:
  \<^item> \<open>WorkerDone\<close>: the goroutine finishes and its \<^verbatim>\<open>cancelFunc()\<close> closes \<^verbatim>\<open>Done\<close>;
  \<^item> \<open>Deadline k\<close>: the configured time elapses when \<open>k\<close> calls of the goroutine have
    returned; the timer case is taken if the channel is \<^verbatim>\<open>time.After\<close> (also when
    the goroutine has finished by then: both cases are ready and Go may take either),
    and a channel on which nothing is sent leaves the \<^verbatim>\<open>select\<close> waiting for
    \<^verbatim>\<open>Done\<close>;
  \<^item> \<open>ParentCancel k\<close>: the request's own context is cancelled when \<open>k\<close> calls of the
    goroutine have returned, which closes \<^verbatim>\<open>Done\<close> of the derived context too.
\<close>

datatype schedule = WorkerDone | Deadline nat | ParentCancel nat

text \<open>
  \<^verbatim>\<open>HandlePayload\<close> from the \<^verbatim>\<open>defer\<close> statement on (lines 69 to 137), that is, once
  the logger has been created.
\<close>

definition HandlePayload ::
  "RouterDeps \<Rightarrow> commonRouter \<Rightarrow> schedule \<Rightarrow> Payload \<Rightarrow> Response \<Rightarrow> ResponseWriter \<Rightarrow> Finalized" where
  "HandlePayload deps r sched payload resp conn =
     (case matchHandlerFunc r payload of
        Panicked v \<Rightarrow> HandlePayload_deferred deps (Some v) False 200 resp conn
      | Returned (Inl err) \<Rightarrow>
          HandlePayload_deferred deps None False 404
            (resp\<lparr>Err := Some (skyerr_NewError skyerr_UndefinedOperation err)\<rparr>) conn
      | Returned (Inr rc) \<Rightarrow>
          let payload1 = payload\<lparr>RequestTag := Some (Tag rc)\<rparr>;
              all_calls = Suc (length (Preprocessors rc));
              (timedOut, k) =
                (case sched of
                   WorkerDone \<Rightarrow> (False, all_calls)
                 | ParentCancel k \<Rightarrow> (False, k)
                 | Deadline k \<Rightarrow>
                     (case getTimeoutChan (ResponseTimeout r) of
                        time_After d \<Rightarrow> (True, k)
                      | make_chan \<Rightarrow> (False, all_calls)))
          in case worker_after deps k (Handler rc) (Preprocessors rc) payload1 resp of
               (None, payload', resp') \<Rightarrow> HandlePayload_deferred deps None timedOut 200 resp' conn
             | (Some httpStatus, payload', resp') \<Rightarrow>
                 HandlePayload_deferred deps None timedOut httpStatus resp' conn)"

text \<open>
  The whole call of \<^verbatim>\<open>HandlePayload\<close> (lines 61 to 137): the logger is created
  before the deferred function is installed, so a panic of that call leaves
  \<^verbatim>\<open>HandlePayload\<close> with nothing done.
\<close>

definition HandlePayload_call ::
  "RouterDeps \<Rightarrow> commonRouter \<Rightarrow> schedule \<Rightarrow> Payload \<Rightarrow> Response \<Rightarrow> ResponseWriter \<Rightarrow> Finalized" where
  "HandlePayload_call deps r sched payload resp conn =
     (case logging_CreateLogger deps of
        Panicked v \<Rightarrow> \<lparr>fin_resp = resp, fin_conn = conn, fin_panic = Some v\<rparr>
      | Returned _ \<Rightarrow> HandlePayload deps r sched payload resp conn)"

subsection \<open>The goroutine and the deferred function side by side\<close>

text \<open>
  The goroutine and \<^verbatim>\<open>HandlePayload\<close> share the payload, the \<^verbatim>\<open>Response\<close> and the
  variable \<^verbatim>\<open>httpStatus\<close>, with no synchronisation but the \<^verbatim>\<open>Done\<close> channel. When
  the timer case is taken, the deferred function runs while the goroutine may still be
  at work. The goroutine is inside \<^verbatim>\<open>callHandler\<close>, with the processors it has yet to
  call and the named result of \<^verbatim>\<open>callHandler\<close>; or \<^verbatim>\<open>callHandler\<close> has returned a
  status that is not yet assigned to \<^verbatim>\<open>httpStatus\<close>; or it is gone: the status is
  assigned and \<^verbatim>\<open>cancelFunc()\<close> is called.
\<close>

datatype 'p goroutine = InChain "'p Processor list" int | Returning int | Gone

text \<open>
  One step of the goroutine on the shared payload, response and \<^verbatim>\<open>httpStatus\<close>: its
  next call (a processor, or the handler when no processor is left) together with what
  \<^verbatim>\<open>callHandler\<close> does until its next call or its return; or the assignment of the
  returned status (line 120).
\<close>

fun goroutine_step ::
  "RouterDeps \<Rightarrow> 'p Handler \<Rightarrow> 'p goroutine \<times> 'p \<times> Response \<times> int
     \<Rightarrow> 'p goroutine \<times> 'p \<times> Response \<times> int" where
  "goroutine_step deps handler (Gone, payload, resp, httpStatus) = (Gone, payload, resp, httpStatus)"
| "goroutine_step deps handler (Returning st, payload, resp, httpStatus) = (Gone, payload, resp, st)"
| "goroutine_step deps handler (InChain [] st, payload, resp, httpStatus) =
     (case handler payload resp of
        (Returned _, payload', resp') \<Rightarrow>
          (case callHandler_deferred deps None st resp' of
             (st', resp'') \<Rightarrow> (Returning st', payload', resp'', httpStatus))
      | (Panicked v, payload', resp') \<Rightarrow>
          (case callHandler_deferred deps (Some v) st resp' of
             (st', resp'') \<Rightarrow> (Returning st', payload', resp'', httpStatus)))"
| "goroutine_step deps handler (InChain (p # pp) st, payload, resp, httpStatus) =
     (case p payload resp of
        (Panicked v, payload', resp') \<Rightarrow>
          (case callHandler_deferred deps (Some v) st resp' of
             (st', resp'') \<Rightarrow> (Returning st', payload', resp'', httpStatus))
      | (Returned hint, payload', resp') \<Rightarrow>
          (case Err resp' of
             Some e \<Rightarrow>
               (case callHandler_deferred deps None
                       (if hint = 200 then defaultStatusCode deps e else hint) resp' of
                  (st', resp'') \<Rightarrow> (Returning st', payload', resp'', httpStatus))
           | None \<Rightarrow> (InChain pp hint, payload', resp', httpStatus)))"

fun goroutine_steps ::
  "RouterDeps \<Rightarrow> 'p Handler \<Rightarrow> nat \<Rightarrow> 'p goroutine \<times> 'p \<times> Response \<times> int
     \<Rightarrow> 'p goroutine \<times> 'p \<times> Response \<times> int" where
  "goroutine_steps deps handler 0 s = s"
| "goroutine_steps deps handler (Suc k) s =
     goroutine_steps deps handler k (goroutine_step deps handler s)"

text \<open>
  \<^verbatim>\<open>HandlePayload\<close> from the \<^verbatim>\<open>defer\<close> statement on, for a matched route, when the
  timer case of the \<^verbatim>\<open>select\<close> is taken after \<open>k1\<close> steps of the goroutine and the
  goroutine makes \<open>k2\<close> more steps after the deferred function has overridden
  \<^verbatim>\<open>resp.Err\<close> (line 84) and before it reads \<^verbatim>\<open>resp.Err\<close> and \<^verbatim>\<open>httpStatus\<close> to
  resolve the status (line 91), and \<open>k3\<close> more after the status is written (line 95)
  and before the \<^verbatim>\<open>Response\<close> is encoded (line 96). With \<open>k2 = 0\<close> and \<open>k3 = 0\<close>
  the deferred function runs in one piece. Each part of the deferred function and each
  step of the goroutine is taken as one atomic step: these are some of the schedules
  the code admits, not all of them. When no route is matched or the timer channel is
  one on which nothing is sent, there is no such run, and the call is the one of
  \<open>HandlePayload\<close>.
\<close>

definition HandlePayload_race ::
  "RouterDeps \<Rightarrow> commonRouter \<Rightarrow> nat \<Rightarrow> nat \<Rightarrow> nat \<Rightarrow> Payload \<Rightarrow> Response \<Rightarrow> ResponseWriter
     \<Rightarrow> Finalized" where
  "HandlePayload_race deps r k1 k2 k3 payload resp conn =
     (case (matchHandlerFunc r payload, getTimeoutChan (ResponseTimeout r)) of
        (Returned (Inr rc), time_After d) \<Rightarrow>
          (case goroutine_steps deps (Handler rc) k1
                  (InChain (Preprocessors rc) 200,
                   payload\<lparr>RequestTag := Some (Tag rc)\<rparr>, resp, 200) of
             (g1, payload1, resp1, httpStatus1) \<Rightarrow>
               (case deferred_begin deps None True resp1 conn of
                  (None, resp2, conn2) \<Rightarrow>
                    \<lparr>fin_resp = resp2, fin_conn = conn2, fin_panic = None\<rparr>
                | (Some w, resp2, conn2) \<Rightarrow>
                    (case goroutine_steps deps (Handler rc) k2
                            (g1, payload1, resp2, httpStatus1) of
                       (g3, payload3, resp3, httpStatus3) \<Rightarrow>
                         (case deferred_status deps httpStatus3 resp3 conn2 of
                            (Panicked v, conn3) \<Rightarrow>
                              \<lparr>fin_resp = resp3, fin_conn = conn3, fin_panic = Some v\<rparr>
                          | (Returned _, conn3) \<Rightarrow>
                              (case goroutine_steps deps (Handler rc) k3
                                      (g3, payload3, resp3, httpStatus3) of
                                 (g4, payload4, resp4, httpStatus4) \<Rightarrow>
                                   deferred_write deps w resp4 conn3)))))
      | _ \<Rightarrow> HandlePayload deps r WorkerDone payload resp conn)"

subsection \<open>\<^verbatim>\<open>ServeHTTP\<close>\<close>

definition TrimPrefix :: "string \<Rightarrow> string \<Rightarrow> string" where
  "TrimPrefix s pre = (if take (length pre) s = pre then drop (length pre) s else s)"

definition ServeHTTP ::
  "RouterDeps \<Rightarrow> commonRouter \<Rightarrow> schedule \<Rightarrow> ResponseWriter \<Rightarrow> Request \<Rightarrow> Finalized" where
  "ServeHTTP deps r sched w req =
     (let version = TrimPrefix (skyversion_Version deps) ''v'';
          w1 = Header_Set ''Server'' (''Skygear Server/'' @ version) w;
          resp = \<lparr>Err = None, Result = None, writer = Some ConnWriter\<rparr>
      in case payloadFunc r req of
           Panicked v \<Rightarrow> \<lparr>fin_resp = resp, fin_conn = w1, fin_panic = Some v\<rparr>
         | Returned (Inl err) \<Rightarrow>
             let resp' = resp\<lparr>Err := Some (NewRequestJSONInvalidErr deps err)\<rparr>;
                 httpStatus = defaultStatusCode deps (NewRequestJSONInvalidErr deps err)
             in (case WriteHeader httpStatus w1 of
                   (Panicked v, w2) \<Rightarrow> \<lparr>fin_resp = resp', fin_conn = w2, fin_panic = Some v\<rparr>
                 | (Returned _, w2) \<Rightarrow> \<lparr>fin_resp = resp', fin_conn = w2, fin_panic = None\<rparr>)
         | Returned (Inr payload) \<Rightarrow> HandlePayload_call deps r sched payload resp w1)"

subsection \<open>Vocabulary for the statements about finalization\<close>

text \<open>
  The response the deferred function serialises when it holds the write target, and the
  status it resolves for a response: the two assignments of the source, named.
\<close>

definition final_resp :: "RouterDeps \<Rightarrow> PanicValue option \<Rightarrow> bool \<Rightarrow> Response \<Rightarrow> Response" where
  "final_resp deps panicking timedOut resp =
     (let resp1 = (case go_recover panicking of
                     Some v \<Rightarrow> resp\<lparr>Err := Some (errorFromRecoveringPanic deps v)\<rparr>
                   | None \<Rightarrow> resp)
      in if timedOut
         then resp1\<lparr>writer := None,
                    Err := Some (skyerr_NewError skyerr_ResponseTimeout
                                   ''Service taking too long to respond.'')\<rparr>
         else resp1\<lparr>writer := None\<rparr>)"

definition final_status :: "RouterDeps \<Rightarrow> int \<Rightarrow> Response \<Rightarrow> int" where
  "final_status deps httpStatus resp =
     (case Err resp of
        Some e \<Rightarrow> if 200 \<le> httpStatus \<and> httpStatus \<le> 299
                  then defaultStatusCode deps e else httpStatus
      | None \<Rightarrow> httpStatus)"

subsection \<open>Vocabulary for the statements about the chain\<close>

text \<open>
  The processors applied one after another with no check in between, threading the
  status hint: this is the state a processor of the chain starts from as long as none
  before it has panicked or set an error.
\<close>

fun run_unchecked :: "'p Processor list \<Rightarrow> int \<Rightarrow> 'p \<Rightarrow> Response \<Rightarrow> int \<times> 'p \<times> Response" where
  "run_unchecked [] httpStatus payload resp = (httpStatus, payload, resp)"
| "run_unchecked (p # pp) httpStatus payload resp =
     (case p payload resp of
        (Returned hint, payload', resp') \<Rightarrow> run_unchecked pp hint payload' resp'
      | (Panicked v, payload', resp') \<Rightarrow> run_unchecked pp httpStatus payload' resp')"

text \<open>A processor, started in a state, returns and leaves \<^verbatim>\<open>resp.Err\<close> unset.\<close>

definition returns_clean :: "'p Processor \<Rightarrow> int \<times> 'p \<times> Response \<Rightarrow> bool" where
  "returns_clean p s =
     (case s of (httpStatus, payload, resp) \<Rightarrow>
        (case p payload resp of
           (Returned hint, payload', resp') \<Rightarrow> Err resp' = None
         | (Panicked v, payload', resp') \<Rightarrow> False))"

text \<open>
  Recording doubles, as a test would use them: a processor or handler wrapped so that
  each invocation appends its mark to a log carried next to the payload. The code under
  test is unchanged; it runs on the wrapped units.
\<close>

datatype call = Preprocess nat | Handle

definition spy_processor :: "nat \<Rightarrow> 'p Processor \<Rightarrow> ('p \<times> call list) Processor" where
  "spy_processor i p =
     (\<lambda>(payload, calls) resp.
        case p payload resp of
          (out, payload', resp') \<Rightarrow> (out, (payload', calls @ [Preprocess i]), resp'))"

fun spy_processors :: "nat \<Rightarrow> 'p Processor list \<Rightarrow> ('p \<times> call list) Processor list" where
  "spy_processors i [] = []"
| "spy_processors i (p # pp) = spy_processor i p # spy_processors (Suc i) pp"

definition spy_handler :: "'p Handler \<Rightarrow> ('p \<times> call list) Handler" where
  "spy_handler h =
     (\<lambda>(payload, calls) resp.
        case h payload resp of
          (out, payload', resp') \<Rightarrow> (out, (payload', calls @ [Handle]), resp'))"

text \<open>Concrete inputs used to run the definitions.\<close>

definition example_file :: File where
  "example_file =
     \<lparr>stat_result = Inr 10,
      seek_error = (\<lambda>off. if off <s 0 then Some ''invalid argument'' else None),
      offset = 0\<rparr>"

definition example_os :: OS where
  "example_os =
     \<lparr>filepath_Join = (\<lambda>d n. d @ ''/'' @ n),
      filepath_Clean = (\<lambda>p. p),
      os_Open = (\<lambda>p. if p = ''assets/a.bin'' then Inr example_file else Inl ''no such file'')\<rparr>"

definition example_store :: AssetStore where
  "example_store = \<lparr>dir = ''assets'', url_prefix = ''http://x'', secret = ''s'', public = True\<rparr>"

definition example_handler :: "string \<Rightarrow> Logrus \<Rightarrow> Logrus" where
  "example_handler name l = l\<lparr>Level := 5, Formatter := ''json:'' @ name\<rparr>"

definition example_deps :: RouterDeps where
  "example_deps =
     \<lparr>defaultStatusCode =
        (\<lambda>e. case Code e of
               skyerr_ResponseTimeout \<Rightarrow> 503
             | skyerr_UndefinedOperation \<Rightarrow> 404
             | skyerr_OtherCode n \<Rightarrow> if n = 107 then 400 else if n = 101 then 401 else 500),
      errorFromRecoveringPanic =
        (\<lambda>v. skyerr_NewError (skyerr_OtherCode 10000)
               (case v of
                  PanicError m \<Rightarrow> ''panic occurred while handling request: '' @ m
                | PanicOther m \<Rightarrow> ''an panic occurred and the error is not known''
                | PanicNil \<Rightarrow> ''an panic occurred and the error is not known'')),
      NewRequestJSONInvalidErr =
        (\<lambda>err. skyerr_NewError (skyerr_OtherCode 107) (''fails to decode the request payload: '' @ err)),
      skyversion_Version = ''v1.7.0'',
      encodeError = (\<lambda>e. None),
      logging_CreateLogger = Returned ()\<rparr>"

definition example_payload :: Payload where
  "example_payload = \<lparr>Data = ''action=me'', RequestTag = None\<rparr>"

definition example_resp :: Response where
  "example_resp = \<lparr>Err = None, Result = None, writer = Some ConnWriter\<rparr>"

definition example_conn :: ResponseWriter where
  "example_conn = \<lparr>header = Map.empty, statuses = [], bodies = []\<rparr>"

definition pass_processor :: "Payload Processor" where
  "pass_processor = (\<lambda>payload resp. (Returned 200, payload, resp))"

definition deny_processor :: "Payload Processor" where
  "deny_processor =
     (\<lambda>payload resp.
        (Returned 200, payload,
         resp\<lparr>Err := Some (skyerr_NewError (skyerr_OtherCode 101) ''not authenticated'')\<rparr>))"

definition teapot_processor :: "Payload Processor" where
  "teapot_processor =
     (\<lambda>payload resp.
        (Returned 418, payload,
         resp\<lparr>Err := Some (skyerr_NewError (skyerr_OtherCode 101) ''not authenticated'')\<rparr>))"

definition panic_processor :: "Payload Processor" where
  "panic_processor =
     (\<lambda>payload resp. (Panicked (PanicError ''index out of range''), payload, resp))"

definition ok_handler :: "Payload Handler" where
  "ok_handler = (\<lambda>payload resp. (Returned (), payload, resp\<lparr>Result := Some ''done''\<rparr>))"


definition example_router ::
  "Payload Processor list \<Rightarrow> Payload Handler \<Rightarrow> Duration \<Rightarrow> commonRouter" where
  "example_router pp h d =
     \<lparr>payloadFunc =
        (\<lambda>req. if req = ''decoder-panics'' then Panicked (PanicError ''nil pointer dereference'')
               else if req = ''{'' then Returned (Inl ''unexpected end of JSON input'')
               else Returned (Inr \<lparr>Data = req, RequestTag = None\<rparr>)),
      matchHandlerFunc =
        (\<lambda>payload. if Data payload = ''matcher-panics'' then Panicked (PanicOther ''bad table'')
                   else if Data payload = ''action=none'' then Returned (Inl ''route unmatched'')
                   else Returned (Inr \<lparr>Tag = ''me'', Preprocessors = pp, Handler = h\<rparr>)),
      ResponseTimeout = d\<rparr>"






section \<open>Properties of the asset store\<close>

lemma sint_pred_no_wrap:
  fixes a S :: int64
  assumes "sint a < sint S"
  shows "sint (S - 1) = sint S - 1"
proof -
  have lo: "- (2 ^ 63) \<le> sint a"
    using sint_ge [of a] by simp
  have hi: "sint S < 2 ^ 63"
    using sint_lt [of S] by simp
  have "sint (S - 1) = signed_take_bit 63 (sint S - 1)"
    by (simp add: sint_word_ariths)
  also have "\<dots> = sint S - 1"
    using lo hi assms by (intro signed_take_bit_int_eq_self) auto
  finally show ?thesis .
qed

text \<open>
  C9. When the file opens and \<^verbatim>\<open>Stat\<close> reports size \<open>S\<close>: a range that starts at or
  after \<open>S\<close> is refused with \<^verbatim>\<open>FileRangeNotAcceptedError\<close>; a range that starts before
  \<open>S\<close> and whose \<^verbatim>\<open>Seek\<close> succeeds yields a result; and every result carries
  \<open>AcceptedRange.From = From\<close>, \<open>AcceptedRange.To = min To (S - 1)\<close> (as signed
  integers, with no wrap-around) and \<open>TotalSize = S\<close>.
\<close>

theorem GetRangedFileReader_accepted_range:
  assumes opened: "os_Open os (filepath_Clean os (filepath_Join os (dir s) name)) = Inr file"
      and size: "Stat file = Inr S"
  shows "(sint S \<le> sint (From fr) \<longrightarrow>
            GetRangedFileReader os s name fr = Inl (FileRangeNotAcceptedError fr))
       \<and> (sint (From fr) < sint S \<longrightarrow> seek_error file (From fr) = None \<longrightarrow>
            (\<exists>res. GetRangedFileReader os s name fr = Inr res))
       \<and> (\<forall>res. GetRangedFileReader os s name fr = Inr res \<longrightarrow>
            sint (From fr) < sint S
          \<and> From (AcceptedRange res) = From fr
          \<and> sint (To (AcceptedRange res)) = min (sint (To fr)) (sint S - 1)
          \<and> TotalSize res = S
          \<and> offset (ReadCloser res) = From fr)"
proof (intro conjI impI allI)
  assume "sint S \<le> sint (From fr)"
  then show "GetRangedFileReader os s name fr = Inl (FileRangeNotAcceptedError fr)"
    using opened size by (simp add: GetRangedFileReader_def word_sle_eq)
next
  assume "sint (From fr) < sint S" and "seek_error file (From fr) = None"
  then show "\<exists>res. GetRangedFileReader os s name fr = Inr res"
    using opened size by (simp add: GetRangedFileReader_def Seek_def word_sle_eq Let_def)
next
  fix res
  assume res: "GetRangedFileReader os s name fr = Inr res"
  show lt: "sint (From fr) < sint S"
  proof (rule ccontr)
    assume "\<not> sint (From fr) < sint S"
    then have "GetRangedFileReader os s name fr = Inl (FileRangeNotAcceptedError fr)"
      using opened size by (simp add: GetRangedFileReader_def word_sle_eq)
    with res show False by simp
  qed
  have pred: "sint (S - 1) = sint S - 1"
    using lt by (rule sint_pred_no_wrap)
  obtain file' where seek: "Seek file (From fr) = Inr file'"
    using res opened size lt
    by (cases "Seek file (From fr)") (simp_all add: GetRangedFileReader_def word_sle_eq Let_def)
  have eq: "res = \<lparr>ReadCloser = file',
                   AcceptedRange = (if S - 1 <s To fr then \<lparr>From = From fr, To = S - 1\<rparr>
                                    else \<lparr>From = From fr, To = To fr\<rparr>),
                   TotalSize = S\<rparr>"
    using res opened size lt seek
    by (auto simp: GetRangedFileReader_def word_sle_eq Let_def)
  show "From (AcceptedRange res) = From fr"
    by (simp add: eq)
  show "sint (To (AcceptedRange res)) = min (sint (To fr)) (sint S - 1)"
    using pred by (simp add: eq word_sless_alt min_def)
  show "TotalSize res = S"
    by (simp add: eq)
  show "offset (ReadCloser res) = From fr"
    using seek by (auto simp: eq Seek_def split: option.splits)
qed

theorem GetRangedFileReader_accepted_range_witness:
  "GetRangedFileReader example_os example_store ''a.bin'' \<lparr>From = 10, To = 20\<rparr>
     = Inl (FileRangeNotAcceptedError \<lparr>From = 10, To = 20\<rparr>)
   \<and> (\<exists>res. GetRangedFileReader example_os example_store ''a.bin'' \<lparr>From = 2, To = 100\<rparr> = Inr res
          \<and> From (AcceptedRange res) = 2
          \<and> sint (To (AcceptedRange res)) = 9
          \<and> TotalSize res = 10)"
proof -
  have opened: "os_Open example_os
                  (filepath_Clean example_os (filepath_Join example_os (dir example_store) ''a.bin''))
                = Inr example_file"
    by (simp add: example_os_def example_store_def)
  have size: "Stat example_file = Inr 10"
    by (simp add: Stat_def example_file_def)
  note t1 = GetRangedFileReader_accepted_range [OF opened size, of "\<lparr>From = 10, To = 20\<rparr>"]
  note t2 = GetRangedFileReader_accepted_range [OF opened size, of "\<lparr>From = 2, To = 100\<rparr>"]
  have seek: "seek_error example_file (From \<lparr>From = 2, To = 100\<rparr>) = None"
    by (simp add: example_file_def word_sless_alt)
  from t1 have a: "GetRangedFileReader example_os example_store ''a.bin'' \<lparr>From = 10, To = 20\<rparr>
                     = Inl (FileRangeNotAcceptedError \<lparr>From = 10, To = 20\<rparr>)"
    by simp
  from t2 seek obtain res where
    r: "GetRangedFileReader example_os example_store ''a.bin'' \<lparr>From = 2, To = 100\<rparr> = Inr res"
    by auto
  from t2 r have "From (AcceptedRange res) = 2 \<and> sint (To (AcceptedRange res)) = 9 \<and> TotalSize res = 10"
    by simp
  with a r show ?thesis by blast
qed

section \<open>Properties of the logger registry\<close>

lemma Logger_registered:
  "loggers st name = Some a \<Longrightarrow> Logger name st = (Inr a, st)"
  by (simp add: Logger_def)

lemma Logger_fresh:
  assumes "loggers st name = None"
  shows "Logger name st =
           (Inr (length (heap st)),
            st\<lparr>heap := heap st @
                   [case configureLoggerHandler st of
                      None \<Rightarrow> \<lparr>Out = ''stderr'', Formatter = ''text'', Level = 4\<rparr>
                    | Some handler \<Rightarrow> handler name \<lparr>Out = ''stderr'', Formatter = ''text'', Level = 4\<rparr>],
               loggers := (loggers st)(name \<mapsto> length (heap st))\<rparr>)"
  using assms
  by (cases "configureLoggerHandler st")
     (simp_all add: Logger_def logrus_New_def Let_def list_update_append)

text \<open>
  C10, as the code has it. The registry memoizes. A call for a name that is not
  registered allocates exactly one logger (the heap grows by one object, the others are
  untouched), configures it with the handler if one is installed, registers it under
  the name and returns it. After any call, a further call with the same name returns
  the same logger and changes nothing, also when the handler has been replaced in
  between: no logger is created and none is configured. A registered name is served
  from the registry without any change of state; the empty name is registered by
  \<^verbatim>\<open>init()\<close>, so its first call is already served that way.
\<close>

theorem Logger_memoizes:
  "(loggers st name = None \<longrightarrow>
      fst (Logger name st) = Inr (length (heap st))
    \<and> length (heap (snd (Logger name st))) = Suc (length (heap st))
    \<and> take (length (heap st)) (heap (snd (Logger name st))) = heap st
    \<and> heap (snd (Logger name st)) ! length (heap st) =
        (case configureLoggerHandler st of
           None \<Rightarrow> \<lparr>Out = ''stderr'', Formatter = ''text'', Level = 4\<rparr>
         | Some handler \<Rightarrow> handler name \<lparr>Out = ''stderr'', Formatter = ''text'', Level = 4\<rparr>)
    \<and> loggers (snd (Logger name st)) = (loggers st)(name \<mapsto> length (heap st)))
   \<and> (\<forall>a. loggers st name = Some a \<longrightarrow> Logger name st = (Inr a, st))
   \<and> (\<exists>a. fst (Logger name st) = Inr a
          \<and> loggers (snd (Logger name st)) name = Some a
          \<and> Logger name (snd (Logger name st)) = (Inr a, snd (Logger name st))
          \<and> Logger name (SetConfigureLoggerHandler h (snd (Logger name st)))
              = (Inr a, SetConfigureLoggerHandler h (snd (Logger name st))))
   \<and> Logger [] (SetConfigureLoggerHandler h init_logging)
       = (Inr 0, SetConfigureLoggerHandler h init_logging)"
proof (intro conjI impI allI)
  assume fresh: "loggers st name = None"
  note eq = Logger_fresh [OF fresh]
  show "fst (Logger name st) = Inr (length (heap st))"
    by (simp add: eq)
  show "length (heap (snd (Logger name st))) = Suc (length (heap st))"
    by (simp add: eq)
  show "take (length (heap st)) (heap (snd (Logger name st))) = heap st"
    by (simp add: eq)
  show "heap (snd (Logger name st)) ! length (heap st) =
        (case configureLoggerHandler st of
           None \<Rightarrow> \<lparr>Out = ''stderr'', Formatter = ''text'', Level = 4\<rparr>
         | Some handler \<Rightarrow> handler name \<lparr>Out = ''stderr'', Formatter = ''text'', Level = 4\<rparr>)"
    by (simp add: eq)
  show "loggers (snd (Logger name st)) = (loggers st)(name \<mapsto> length (heap st))"
    by (simp add: eq)
next
  fix a
  assume "loggers st name = Some a"
  then show "Logger name st = (Inr a, st)"
    by (rule Logger_registered)
next
  show "\<exists>a. fst (Logger name st) = Inr a
          \<and> loggers (snd (Logger name st)) name = Some a
          \<and> Logger name (snd (Logger name st)) = (Inr a, snd (Logger name st))
          \<and> Logger name (SetConfigureLoggerHandler h (snd (Logger name st)))
              = (Inr a, SetConfigureLoggerHandler h (snd (Logger name st)))"
  proof (cases "loggers st name")
    case None
    note eq = Logger_fresh [OF None]
    have reg: "loggers (snd (Logger name st)) name = Some (length (heap st))"
      by (simp add: eq)
    have reg': "loggers (SetConfigureLoggerHandler h (snd (Logger name st))) name
                  = Some (length (heap st))"
      by (simp add: eq SetConfigureLoggerHandler_def)
    show ?thesis
      using Logger_registered [OF reg] Logger_registered [OF reg'] reg
      by (simp add: eq)
  next
    case (Some a)
    have reg': "loggers (SetConfigureLoggerHandler h st) name = Some a"
      using Some by (simp add: SetConfigureLoggerHandler_def)
    show ?thesis
      using Logger_registered [OF Some] Logger_registered [OF reg'] Some
      by simp
  qed
next
  show "Logger [] (SetConfigureLoggerHandler h init_logging)
          = (Inr 0, SetConfigureLoggerHandler h init_logging)"
    by (simp add: Logger_def SetConfigureLoggerHandler_def init_logging_def)
qed

theorem Logger_memoizes_witness:
  "fst (Logger ''router'' (SetConfigureLoggerHandler (Some example_handler) init_logging)) = Inr 1
   \<and> heap (snd (Logger ''router'' (SetConfigureLoggerHandler (Some example_handler) init_logging))) ! 1
       = \<lparr>Out = ''stderr'', Formatter = ''json:router'', Level = 5\<rparr>
   \<and> Logger [] init_logging = (Inr 0, init_logging)
   \<and> fst (Logger ''router''
            (snd (Logger ''router'' (SetConfigureLoggerHandler (Some example_handler) init_logging))))
       = Inr 1"
proof -
  let ?st = "SetConfigureLoggerHandler (Some example_handler) init_logging"
  have fresh: "loggers ?st ''router'' = None"
    by (simp add: SetConfigureLoggerHandler_def init_logging_def)
  have len: "length (heap ?st) = 1"
    by (simp add: SetConfigureLoggerHandler_def init_logging_def)
  have hd: "configureLoggerHandler ?st = Some example_handler"
    by (simp add: SetConfigureLoggerHandler_def)
  have std: "loggers init_logging [] = Some 0"
    by (simp add: init_logging_def)
  note t = Logger_memoizes [of ?st "''router''" None]
  note u = Logger_memoizes [of init_logging "[]" None]
  from t fresh len have a: "fst (Logger ''router'' ?st) = Inr 1"
    by simp
  from t fresh len hd have b: "heap (snd (Logger ''router'' ?st)) ! 1
       = \<lparr>Out = ''stderr'', Formatter = ''json:router'', Level = 5\<rparr>"
    by (simp add: example_handler_def)
  from u std have c: "Logger [] init_logging = (Inr 0, init_logging)"
    by simp
  from t a have d: "fst (Logger ''router'' (snd (Logger ''router'' ?st))) = Inr 1"
    by auto
  from a b c d show ?thesis by simp
qed

text \<open>
  C10 as stated fails for the empty name: \<^verbatim>\<open>init()\<close> has registered the standard
  logger under it, so the first call of \<^verbatim>\<open>Logger\<close> with the empty name creates no
  logger and does not run the installed handler.
\<close>

theorem Logger_init_counterexample:
  "loggers (SetConfigureLoggerHandler (Some example_handler) init_logging) [] = Some 0
   \<and> Logger [] (SetConfigureLoggerHandler (Some example_handler) init_logging)
       = (Inr 0, SetConfigureLoggerHandler (Some example_handler) init_logging)
   \<and> heap (snd (Logger [] (SetConfigureLoggerHandler (Some example_handler) init_logging)))
       = [\<lparr>Out = ''stderr'', Formatter = ''text'', Level = 4\<rparr>]"
  by (simp add: Logger_def SetConfigureLoggerHandler_def init_logging_def logrus_StandardLogger_def)

section \<open>Properties of the chain\<close>

lemma preprocess_loop_append:
  "preprocess_loop dsc (xs @ ys) st p r =
     (case preprocess_loop dsc xs st p r of
        (Completed st', p', r') \<Rightarrow> preprocess_loop dsc ys st' p' r'
      | (Halted st', p', r') \<Rightarrow> (Halted st', p', r')
      | (Aborted v st', p', r') \<Rightarrow> (Aborted v st', p', r'))"
  by (induction xs arbitrary: st p r)
     (auto split: prod.splits outcome.splits option.splits loop_exit.splits)

lemma preprocess_loop_clean:
  "(\<forall>j<length xs. returns_clean (xs ! j) (run_unchecked (take j xs) st p r)) \<Longrightarrow>
   preprocess_loop dsc xs st p r =
     (case run_unchecked xs st p r of (st', p', r') \<Rightarrow> (Completed st', p', r'))"
proof (induction xs arbitrary: st p r)
  case Nil
  then show ?case by simp
next
  case (Cons x xs)
  from Cons.prems have "returns_clean x (st, p, r)"
    by (auto dest: spec [of _ 0])
  then obtain h p' r' where x: "x p r = (Returned h, p', r')" and ok: "Err r' = None"
    by (auto simp: returns_clean_def split: prod.splits outcome.splits)
  have "\<forall>j<length xs. returns_clean (xs ! j) (run_unchecked (take j xs) h p' r')"
  proof (intro allI impI)
    fix j assume "j < length xs"
    then have "returns_clean ((x # xs) ! Suc j) (run_unchecked (take (Suc j) (x # xs)) st p r)"
      using Cons.prems by (auto simp del: take_Suc_Cons nth_Cons_Suc)
    then show "returns_clean (xs ! j) (run_unchecked (take j xs) h p' r')"
      by (simp add: x)
  qed
  from Cons.IH [OF this] show ?case
    by (simp add: x ok)
qed


lemma length_spy_processors [simp]: "length (spy_processors n xs) = length xs"
  by (induction xs arbitrary: n) simp_all

lemma nth_spy_processors:
  "j < length xs \<Longrightarrow> spy_processors n xs ! j = spy_processor (n + j) (xs ! j)"
proof (induction xs arbitrary: n j)
  case Nil
  then show ?case by simp
next
  case (Cons x xs)
  then show ?case by (cases j) simp_all
qed

lemma take_spy_processors: "take j (spy_processors n xs) = spy_processors n (take j xs)"
proof (induction xs arbitrary: n j)
  case Nil
  then show ?case by simp
next
  case (Cons x xs)
  then show ?case by (cases j) simp_all
qed

lemma map_upt_Cons:
  "map f [n..<n + Suc m] = f n # map f [Suc n..<Suc n + m]"
  by (simp add: upt_conv_Cons del: upt_Suc)

lemma run_unchecked_spy:
  "run_unchecked (spy_processors n xs) st (p, cs) r =
     (case run_unchecked xs st p r of
        (st', p', r') \<Rightarrow> (st', (p', cs @ map Preprocess [n..<n + length xs]), r'))"
proof (induction xs arbitrary: n st p cs r)
  case Nil
  then show ?case by simp
next
  case (Cons x xs)
  obtain out p' r' where x: "x p r = (out, p', r')"
    by (rule prod_cases3)
  have spy: "spy_processor n x (p, cs) r = (out, (p', cs @ [Preprocess n]), r')"
    by (simp add: spy_processor_def x)
  have log: "map Preprocess [n..<n + length (x # xs)]
               = Preprocess n # map Preprocess [Suc n..<Suc n + length xs]"
    using map_upt_Cons [of Preprocess n "length xs"] by simp
  show ?case
  proof (cases out)
    case (Returned hint)
    show ?thesis
      unfolding log
      by (simp add: spy x Returned Cons.IH [of "Suc n"] split: prod.splits del: upt_Suc)
  next
    case (Panicked v)
    show ?thesis
      unfolding log
      by (simp add: spy x Panicked Cons.IH [of "Suc n"] split: prod.splits del: upt_Suc)
  qed
qed

lemma returns_clean_spy:
  "returns_clean (spy_processor i q) (st, (p, cs), r) = returns_clean q (st, p, r)"
  by (simp add: returns_clean_def spy_processor_def split: prod.splits outcome.splits)

lemma preprocess_loop_spy_erase:
  "preprocess_loop dsc (spy_processors n xs) st (p, cs) r = (out, (p', cs'), r') \<Longrightarrow>
   preprocess_loop dsc xs st p r = (out, p', r')"
proof (induction xs arbitrary: n st p cs r)
  case Nil
  then show ?case by simp
next
  case (Cons x xs)
  then show ?case
    by (auto simp: spy_processor_def split: prod.splits outcome.splits option.splits)
qed

lemma callHandler_spy_erase:
  assumes "callHandler deps (spy_handler h) (spy_processors n pp) (p, cs) r = (st, (p', cs'), r')"
  shows "callHandler deps h pp p r = (st, p', r')"
proof -
  obtain out q r1 where loop:
    "preprocess_loop (defaultStatusCode deps) (spy_processors n pp) 200 (p, cs) r = (out, q, r1)"
    by (rule prod_cases3)
  obtain p1 cs1 where q: "q = (p1, cs1)" by (cases q)
  note plain = preprocess_loop_spy_erase [OF loop [unfolded q]]
  show ?thesis
    using assms loop plain
    by (auto simp: callHandler_def callHandler_body_def q spy_handler_def Let_def
             split: prod.splits outcome.splits loop_exit.splits body_exit.splits)
qed


lemma clean_spy:
  assumes "i \<le> length xs"
      and "\<forall>j<i. returns_clean (xs ! j) (run_unchecked (take j xs) st p r)"
  shows "\<forall>j<i. returns_clean (spy_processors n xs ! j)
                  (run_unchecked (take j (spy_processors n xs)) st (p, cs) r)"
proof (intro allI impI)
  fix j assume ji: "j < i"
  with assms(1) have j: "j < length xs" by simp
  from assms(2) ji have "returns_clean (xs ! j) (run_unchecked (take j xs) st p r)" by blast
  then show "returns_clean (spy_processors n xs ! j)
             (run_unchecked (take j (spy_processors n xs)) st (p, cs) r)"
    by (auto simp: nth_spy_processors [OF j] take_spy_processors run_unchecked_spy
                   returns_clean_spy split: prod.splits)
qed

lemma preprocess_loop_prefix:
  assumes "i \<le> length pp"
      and "\<forall>j<i. returns_clean (pp ! j) (run_unchecked (take j pp) st p r)"
      and "run_unchecked (take i pp) st p r = (st1, p1, r1)"
  shows "preprocess_loop dsc (take i pp) st p r = (Completed st1, p1, r1)"
proof -
  have "\<forall>j<length (take i pp).
          returns_clean (take i pp ! j) (run_unchecked (take j (take i pp)) st p r)"
    using assms(1,2) by (simp add: min_def)
  from preprocess_loop_clean [OF this] show ?thesis
    by (simp add: assms(3))
qed

lemma preprocess_loop_at:
  assumes "i < length pp"
      and "\<forall>j<i. returns_clean (pp ! j) (run_unchecked (take j pp) st p r)"
      and "run_unchecked (take i pp) st p r = (st1, p1, r1)"
  shows "preprocess_loop dsc pp st p r
           = preprocess_loop dsc (pp ! i # drop (Suc i) pp) st1 p1 r1"
proof -
  have le: "i \<le> length pp" using assms(1) by simp
  have split: "pp = take i pp @ pp ! i # drop (Suc i) pp"
    using assms(1) by (simp add: id_take_nth_drop [symmetric])
  have "preprocess_loop dsc (take i pp @ pp ! i # drop (Suc i) pp) st p r
          = preprocess_loop dsc (pp ! i # drop (Suc i) pp) st1 p1 r1"
    by (simp only: preprocess_loop_append
          preprocess_loop_prefix [OF le assms(2) assms(3)] prod.case outcome.case loop_exit.case)
  with split show ?thesis by simp
qed


lemma callHandler_halts_at:
  assumes i: "i < length pp"
      and clean: "\<forall>j<i. returns_clean (pp ! j) (run_unchecked (take j pp) 200 payload resp)"
      and before: "run_unchecked (take i pp) 200 payload resp = (st1, p1, r1)"
      and at: "(pp ! i) p1 r1 = (Returned hint, p2, r2)"
      and err: "Err r2 = Some e"
  shows "callHandler deps h pp payload resp
           = (if hint = 200 then defaultStatusCode deps e else hint, p2, r2)"
  by (simp add: callHandler_def callHandler_body_def callHandler_deferred_def go_recover_def
        preprocess_loop_at [OF i clean before] at err)

lemma callHandler_panics_at:
  assumes i: "i < length pp"
      and clean: "\<forall>j<i. returns_clean (pp ! j) (run_unchecked (take j pp) 200 payload resp)"
      and before: "run_unchecked (take i pp) 200 payload resp = (st1, p1, r1)"
      and at: "(pp ! i) p1 r1 = (Panicked v, p2, r2)"
  shows "callHandler_body deps h pp payload resp = (BodyPanicked v st1, p2, r2)"
  by (simp add: callHandler_body_def preprocess_loop_at [OF i clean before] at)

lemma callHandler_body_reaches_handler:
  assumes clean: "\<forall>j<length pp. returns_clean (pp ! j) (run_unchecked (take j pp) 200 payload resp)"
      and before: "run_unchecked pp 200 payload resp = (st1, p1, r1)"
  shows "callHandler_body deps h pp payload resp =
           (case h p1 r1 of
              (Panicked v, p2, r2) \<Rightarrow> (BodyPanicked v st1, p2, r2)
            | (Returned u, p2, r2) \<Rightarrow> (BodyReturned st1, p2, r2))"
  by (simp add: callHandler_body_def preprocess_loop_clean [OF clean] before
           split: prod.splits outcome.splits)


lemma callHandler_deferred_None [simp]:
  "callHandler_deferred deps None st resp = (st, resp)"
  by (simp add: callHandler_deferred_def go_recover_def)

lemma callHandler_deferred_Some:
  "callHandler_deferred deps (Some v) st resp =
     (if v = PanicNil then (st, resp)
      else (defaultStatusCode deps (errorFromRecoveringPanic deps v),
            resp\<lparr>Err := Some (errorFromRecoveringPanic deps v)\<rparr>))"
  by (cases v) (simp_all add: callHandler_deferred_def go_recover_def Let_def)

lemma callHandler_of_body:
  "callHandler deps h pp payload resp =
     (case callHandler_body deps h pp payload resp of
        (BodyReturned st, p', r') \<Rightarrow> (st, p', r')
      | (BodyPanicked v st, p', r') \<Rightarrow>
          if v = PanicNil then (st, p', r')
          else (defaultStatusCode deps (errorFromRecoveringPanic deps v), p',
                r'\<lparr>Err := Some (errorFromRecoveringPanic deps v)\<rparr>))"
  by (simp add: callHandler_def callHandler_deferred_Some split: prod.splits body_exit.splits)

text \<open>
  C2. Let the processors before position \<open>i\<close> return without setting an error, each
  started where its predecessors left the payload and the response, and let processor
  \<open>i\<close> return the hint \<open>hint\<close> with \<^verbatim>\<open>resp.Err\<close> set to \<open>e\<close>. Then the invocations
  are exactly those of processors \<open>0..i\<close>, in order: no later processor and no handler
  is invoked, and the chain returns the status mapped from \<open>e\<close> if the hint is 200 and
  the hint otherwise, with the payload and response as processor \<open>i\<close> left them. If
  processor \<open>i\<close> panics instead, the invocations are the same; the error is the one
  made from the panic value, with the status it maps to, unless the value is \<^verbatim>\<open>nil\<close>:
  then the response is as processor \<open>i\<close> left it and the status is the last hint. If
  every processor returns without setting an error, the invocations are all processors
  in registration order followed by the handler, once, started where the last processor
  left off.
\<close>

theorem callHandler_fail_fast:
  "(i < length pp
      \<and> (\<forall>j<i. returns_clean (pp ! j) (run_unchecked (take j pp) 200 payload resp))
      \<and> (case run_unchecked (take i pp) 200 payload resp of
            (st1, p1, r1) \<Rightarrow> (pp ! i) p1 r1 = (Returned hint, p2, r2))
      \<and> Err r2 = Some e
    \<longrightarrow> callHandler deps (spy_handler h) (spy_processors 0 pp) (payload, []) resp
          = (if hint = 200 then defaultStatusCode deps e else hint,
             (p2, map Preprocess [0..<Suc i]), r2)
      \<and> callHandler deps h pp payload resp
          = (if hint = 200 then defaultStatusCode deps e else hint, p2, r2))
   \<and> (i < length pp
      \<and> (\<forall>j<i. returns_clean (pp ! j) (run_unchecked (take j pp) 200 payload resp))
      \<and> (case run_unchecked (take i pp) 200 payload resp of
            (st1, p1, r1) \<Rightarrow> (pp ! i) p1 r1 = (Panicked v, p2, r2))
    \<longrightarrow> callHandler deps (spy_handler h) (spy_processors 0 pp) (payload, []) resp
          = (if v = PanicNil
             then (fst (run_unchecked (take i pp) 200 payload resp),
                   (p2, map Preprocess [0..<Suc i]), r2)
             else (defaultStatusCode deps (errorFromRecoveringPanic deps v),
                   (p2, map Preprocess [0..<Suc i]),
                   r2\<lparr>Err := Some (errorFromRecoveringPanic deps v)\<rparr>)))
   \<and> ((\<forall>j<length pp. returns_clean (pp ! j) (run_unchecked (take j pp) 200 payload resp))
    \<longrightarrow> snd (fst (snd (callHandler deps (spy_handler h) (spy_processors 0 pp) (payload, []) resp)))
          = map Preprocess [0..<length pp] @ [Handle]
      \<and> (case run_unchecked pp 200 payload resp of
            (st1, p1, r1) \<Rightarrow>
              callHandler_body deps h pp payload resp =
                (case h p1 r1 of
                   (Panicked v, p2, r2) \<Rightarrow> (BodyPanicked v st1, p2, r2)
                 | (Returned u, p2, r2) \<Rightarrow> (BodyReturned st1, p2, r2))))"
proof (intro conjI impI)
  assume H: "i < length pp
      \<and> (\<forall>j<i. returns_clean (pp ! j) (run_unchecked (take j pp) 200 payload resp))
      \<and> (case run_unchecked (take i pp) 200 payload resp of
            (st1, p1, r1) \<Rightarrow> (pp ! i) p1 r1 = (Returned hint, p2, r2))
      \<and> Err r2 = Some e"
  then have i: "i < length pp"
    and clean: "\<forall>j<i. returns_clean (pp ! j) (run_unchecked (take j pp) 200 payload resp)"
    and err: "Err r2 = Some e"
    by simp_all
  obtain st1 p1 r1 where before: "run_unchecked (take i pp) 200 payload resp = (st1, p1, r1)"
    by (rule prod_cases3)
  with H have at: "(pp ! i) p1 r1 = (Returned hint, p2, r2)"
    by simp
  show "callHandler deps h pp payload resp
          = (if hint = 200 then defaultStatusCode deps e else hint, p2, r2)"
    by (rule callHandler_halts_at [OF i clean before at err])
  let ?spp = "spy_processors 0 pp"
  have si: "i < length ?spp" using i by simp
  have sclean: "\<forall>j<i. returns_clean (?spp ! j)
                         (run_unchecked (take j ?spp) 200 (payload, []) resp)"
    using i clean by (intro clean_spy) simp_all
  have sbefore: "run_unchecked (take i ?spp) 200 (payload, []) resp
                   = (st1, (p1, map Preprocess [0..<i]), r1)"
    using i by (simp add: take_spy_processors run_unchecked_spy before min_def)
  have sat: "(?spp ! i) (p1, map Preprocess [0..<i]) r1
               = (Returned hint, (p2, map Preprocess [0..<Suc i]), r2)"
    by (simp add: nth_spy_processors [OF i] spy_processor_def at)
  show "callHandler deps (spy_handler h) ?spp (payload, []) resp
          = (if hint = 200 then defaultStatusCode deps e else hint,
             (p2, map Preprocess [0..<Suc i]), r2)"
    by (rule callHandler_halts_at [OF si sclean sbefore sat err])
next
  assume H: "i < length pp
      \<and> (\<forall>j<i. returns_clean (pp ! j) (run_unchecked (take j pp) 200 payload resp))
      \<and> (case run_unchecked (take i pp) 200 payload resp of
            (st1, p1, r1) \<Rightarrow> (pp ! i) p1 r1 = (Panicked v, p2, r2))"
  then have i: "i < length pp"
    and clean: "\<forall>j<i. returns_clean (pp ! j) (run_unchecked (take j pp) 200 payload resp)"
    by simp_all
  obtain st1 p1 r1 where before: "run_unchecked (take i pp) 200 payload resp = (st1, p1, r1)"
    by (rule prod_cases3)
  with H have at: "(pp ! i) p1 r1 = (Panicked v, p2, r2)"
    by simp
  let ?spp = "spy_processors 0 pp"
  have si: "i < length ?spp" using i by simp
  have sclean: "\<forall>j<i. returns_clean (?spp ! j)
                         (run_unchecked (take j ?spp) 200 (payload, []) resp)"
    using i clean by (intro clean_spy) simp_all
  have sbefore: "run_unchecked (take i ?spp) 200 (payload, []) resp
                   = (st1, (p1, map Preprocess [0..<i]), r1)"
    using i by (simp add: take_spy_processors run_unchecked_spy before min_def)
  have sat: "(?spp ! i) (p1, map Preprocess [0..<i]) r1
               = (Panicked v, (p2, map Preprocess [0..<Suc i]), r2)"
    by (simp add: nth_spy_processors [OF i] spy_processor_def at)
  show "callHandler deps (spy_handler h) ?spp (payload, []) resp
          = (if v = PanicNil
             then (fst (run_unchecked (take i pp) 200 payload resp),
                   (p2, map Preprocess [0..<Suc i]), r2)
             else (defaultStatusCode deps (errorFromRecoveringPanic deps v),
                   (p2, map Preprocess [0..<Suc i]),
                   r2\<lparr>Err := Some (errorFromRecoveringPanic deps v)\<rparr>))"
    by (simp add: callHandler_of_body callHandler_panics_at [OF si sclean sbefore sat] before)
next
  assume clean: "\<forall>j<length pp. returns_clean (pp ! j) (run_unchecked (take j pp) 200 payload resp)"
  obtain st1 p1 r1 where before: "run_unchecked pp 200 payload resp = (st1, p1, r1)"
    by (rule prod_cases3)
  show "case run_unchecked pp 200 payload resp of
            (st1, p1, r1) \<Rightarrow>
              callHandler_body deps h pp payload resp =
                (case h p1 r1 of
                   (Panicked v, p2, r2) \<Rightarrow> (BodyPanicked v st1, p2, r2)
                 | (Returned u, p2, r2) \<Rightarrow> (BodyReturned st1, p2, r2))"
    using callHandler_body_reaches_handler [OF clean before] by (simp add: before)
  let ?spp = "spy_processors 0 pp"
  have sclean: "\<forall>j<length ?spp. returns_clean (?spp ! j)
                         (run_unchecked (take j ?spp) 200 (payload, []) resp)"
    using clean_spy [OF le_refl clean, of 0 "[]"] by simp
  have sbefore: "run_unchecked ?spp 200 (payload, []) resp
                   = (st1, (p1, map Preprocess [0..<length pp]), r1)"
    by (simp add: run_unchecked_spy before)
  obtain out p2 r2 where h: "h p1 r1 = (out, p2, r2)"
    by (rule prod_cases3)
  have sh: "spy_handler h (p1, map Preprocess [0..<length pp]) r1
              = (out, (p2, map Preprocess [0..<length pp] @ [Handle]), r2)"
    by (simp add: spy_handler_def h)
  show "snd (fst (snd (callHandler deps (spy_handler h) ?spp (payload, []) resp)))
          = map Preprocess [0..<length pp] @ [Handle]"
    by (cases out)
       (simp_all add: callHandler_of_body callHandler_body_reaches_handler [OF sclean sbefore] sh)
qed

theorem callHandler_fail_fast_witness:
  "callHandler example_deps (spy_handler ok_handler)
       (spy_processors 0 [pass_processor, deny_processor, panic_processor]) (example_payload, [])
       example_resp
     = (401, (example_payload, [Preprocess 0, Preprocess 1]),
        example_resp\<lparr>Err := Some (skyerr_NewError (skyerr_OtherCode 101) ''not authenticated'')\<rparr>)
   \<and> callHandler example_deps ok_handler [pass_processor, teapot_processor] example_payload example_resp
     = (418, example_payload,
        example_resp\<lparr>Err := Some (skyerr_NewError (skyerr_OtherCode 101) ''not authenticated'')\<rparr>)
   \<and> callHandler example_deps (spy_handler ok_handler)
       (spy_processors 0 [pass_processor, panic_processor, deny_processor]) (example_payload, [])
       example_resp
     = (500, (example_payload, [Preprocess 0, Preprocess 1]),
        example_resp\<lparr>Err := Some (skyerr_NewError (skyerr_OtherCode 10000)
            ''panic occurred while handling request: index out of range'')\<rparr>)
   \<and> snd (fst (snd (callHandler example_deps (spy_handler ok_handler)
         (spy_processors 0 [pass_processor, pass_processor]) (example_payload, []) example_resp)))
     = [Preprocess 0, Preprocess 1, Handle]"
proof -
  let ?e = "skyerr_NewError (skyerr_OtherCode 101) ''not authenticated''"
  let ?r2 = "example_resp\<lparr>Err := Some ?e\<rparr>"
  note a = callHandler_fail_fast [where i = 1
             and pp = "[pass_processor, deny_processor, panic_processor]"
             and payload = example_payload and resp = example_resp and hint = 200
             and ?p2.0 = example_payload and ?r2.0 = ?r2 and e = ?e and deps = example_deps
             and h = ok_handler]
  note b = callHandler_fail_fast [where i = 1
             and pp = "[pass_processor, teapot_processor]"
             and payload = example_payload and resp = example_resp and hint = 418
             and ?p2.0 = example_payload and ?r2.0 = ?r2 and e = ?e and deps = example_deps
             and h = ok_handler]
  note c = callHandler_fail_fast [where i = 0
             and pp = "[pass_processor, pass_processor]"
             and payload = example_payload and resp = example_resp and deps = example_deps
             and h = ok_handler]
  note d = callHandler_fail_fast [where i = 1
             and pp = "[pass_processor, panic_processor, deny_processor]"
             and payload = example_payload and resp = example_resp
             and v = "PanicError ''index out of range''"
             and ?p2.0 = example_payload and ?r2.0 = example_resp and deps = example_deps
             and h = ok_handler]
  have clean0: "returns_clean pass_processor (200, example_payload, example_resp)"
    by (simp add: returns_clean_def pass_processor_def example_resp_def)
  have A: "callHandler example_deps (spy_handler ok_handler)
       (spy_processors 0 [pass_processor, deny_processor, panic_processor]) (example_payload, [])
       example_resp = (401, (example_payload, [Preprocess 0, Preprocess 1]), ?r2)"
    using a clean0
    by (simp add: pass_processor_def deny_processor_def example_deps_def)
  have B: "callHandler example_deps ok_handler [pass_processor, teapot_processor] example_payload example_resp
     = (418, example_payload, ?r2)"
    using b clean0
    by (simp add: pass_processor_def teapot_processor_def)
  have D: "callHandler example_deps (spy_handler ok_handler)
       (spy_processors 0 [pass_processor, panic_processor, deny_processor]) (example_payload, [])
       example_resp
     = (500, (example_payload, [Preprocess 0, Preprocess 1]),
        example_resp\<lparr>Err := Some (skyerr_NewError (skyerr_OtherCode 10000)
            ''panic occurred while handling request: index out of range'')\<rparr>)"
    using d clean0
    by (simp add: pass_processor_def panic_processor_def example_deps_def)
  have hyp: "\<forall>j<length [pass_processor, pass_processor].
               returns_clean ([pass_processor, pass_processor] ! j)
                 (run_unchecked (take j [pass_processor, pass_processor]) 200
                    example_payload example_resp)"
  proof (intro allI impI)
    fix j :: nat
    assume "j < length [pass_processor, pass_processor]"
    then have "j = 0 \<or> j = 1" by auto
    then show "returns_clean ([pass_processor, pass_processor] ! j)
                 (run_unchecked (take j [pass_processor, pass_processor]) 200
                    example_payload example_resp)"
      by (auto simp: returns_clean_def pass_processor_def example_resp_def)
  qed
  have C: "snd (fst (snd (callHandler example_deps (spy_handler ok_handler)
         (spy_processors 0 [pass_processor, pass_processor]) (example_payload, []) example_resp)))
     = [Preprocess 0, Preprocess 1, Handle]"
    using c [THEN conjunct2, THEN conjunct2, THEN mp, OF hyp, THEN conjunct1]
    by (simp add: upt_rec)
  from A B C D show ?thesis by simp
qed




section \<open>Properties of finalization and of the deadline\<close>

lemma Seconds_positive_iff: "0 < Seconds d \<longleftrightarrow> 0 < sint d"
proof -
  define x where "x = sint d"
  define n :: int where "n = 1000000000"
  have n: "0 < n" by (simp add: n_def)
  have split: "x sdiv n * n + x smod n = x"
    by (rule sdiv_mult_smod_eq)
  show ?thesis
  proof (cases "0 < x")
    case True
    then have q: "0 \<le> x sdiv n" and m: "0 \<le> x smod n"
      using n by (simp_all add: signed_divide_int_def signed_modulo_int_def sgn_if
                                pos_imp_zdiv_nonneg_iff)
    have "0 < x sdiv n \<or> 0 < x smod n"
    proof (rule ccontr)
      assume "\<not> (0 < x sdiv n \<or> 0 < x smod n)"
      with q m have "x sdiv n = 0" "x smod n = 0" by simp_all
      with split True show False by simp
    qed
    then have "0 < real_of_int (x sdiv n) + real_of_int (x smod n) / 1000000000"
      using q m by (auto intro: add_pos_nonneg add_nonneg_pos)
    with True show ?thesis
      by (simp add: Seconds_def x_def n_def)
  next
    case False
    then have q: "x sdiv n \<le> 0" and m: "x smod n \<le> 0"
      using n by (simp_all add: signed_divide_int_def signed_modulo_int_def sgn_if
                                pos_imp_zdiv_nonneg_iff)
    then have "real_of_int (x sdiv n) + real_of_int (x smod n) / 1000000000 \<le> 0"
      by (auto intro: add_nonpos_nonpos divide_nonpos_pos)
    with False show ?thesis
      by (simp add: Seconds_def x_def n_def)
  qed
qed

lemma getTimeoutChan_eq:
  "getTimeoutChan d = (if 0 < sint d then time_After d else make_chan)"
  by (simp add: getTimeoutChan_def Seconds_positive_iff)

lemma writer_None_update: "writer resp = None \<Longrightarrow> resp\<lparr>writer := None\<rparr> = resp"
  by (cases resp) simp

lemma deferred_already_written:
  "writer resp = None \<Longrightarrow>
   HandlePayload_deferred deps panicking timedOut httpStatus resp conn =
     \<lparr>fin_resp = (case go_recover panicking of
                    Some v \<Rightarrow> resp\<lparr>Err := Some (errorFromRecoveringPanic deps v)\<rparr>
                  | None \<Rightarrow> resp),
      fin_conn = conn, fin_panic = None\<rparr>"
  by (cases resp; cases "go_recover panicking")
     (simp_all add: HandlePayload_deferred_def deferred_begin_def Writer_def)

lemma deferred_begin_writes:
  assumes "writer resp = Some w"
  shows "deferred_begin deps panicking timedOut resp conn =
           (Some w, final_resp deps panicking timedOut resp,
            conn\<lparr>header := (header conn)(''Content-Type'' \<mapsto> ''application/json'')\<rparr>)"
  using assms
  by (cases "go_recover panicking"; cases timedOut)
     (simp_all add: deferred_begin_def Writer_def final_resp_def Header_Set_def Let_def)

lemma deferred_finish_eq:
  "deferred_finish deps w httpStatus resp conn =
     (if final_status deps httpStatus resp < 100 \<or> 999 < final_status deps httpStatus resp
      then \<lparr>fin_resp = resp, fin_conn = conn, fin_panic = Some invalid_WriteHeader_code\<rparr>
      else case encodeError deps (entity_of resp) of
             Some err \<Rightarrow>
               \<lparr>fin_resp = resp,
                fin_conn = conn\<lparr>statuses := statuses conn @ [final_status deps httpStatus resp]\<rparr>,
                fin_panic = Some (PanicError err)\<rparr>
           | None \<Rightarrow>
               \<lparr>fin_resp = resp,
                fin_conn = conn\<lparr>statuses := statuses conn @ [final_status deps httpStatus resp],
                               bodies := bodies conn @ [entity_of resp]\<rparr>,
                fin_panic = None\<rparr>)"
  by (simp add: deferred_finish_def deferred_status_def deferred_write_def WriteHeader_def
        writeEntity_def final_status_def split: option.splits)

lemma deferred_writes:
  assumes "writer resp = Some w"
  shows "HandlePayload_deferred deps panicking timedOut httpStatus resp conn =
     (let resp3 = final_resp deps panicking timedOut resp;
          conn1 = conn\<lparr>header := (header conn)(''Content-Type'' \<mapsto> ''application/json'')\<rparr>;
          conn2 = conn1\<lparr>statuses := statuses conn @ [final_status deps httpStatus resp3]\<rparr>
      in if final_status deps httpStatus resp3 < 100 \<or> 999 < final_status deps httpStatus resp3
         then \<lparr>fin_resp = resp3, fin_conn = conn1, fin_panic = Some invalid_WriteHeader_code\<rparr>
         else case encodeError deps (entity_of resp3) of
                Some err \<Rightarrow> \<lparr>fin_resp = resp3, fin_conn = conn2, fin_panic = Some (PanicError err)\<rparr>
              | None \<Rightarrow> \<lparr>fin_resp = resp3,
                           fin_conn = conn2\<lparr>bodies := bodies conn @ [entity_of resp3]\<rparr>,
                           fin_panic = None\<rparr>)"
  by (simp add: HandlePayload_deferred_def deferred_begin_writes [OF assms] deferred_finish_eq
        Let_def split: option.splits)

lemma worker_after_all:
  "worker_after deps (Suc (length pp)) h pp p r =
     (case callHandler deps h pp p r of (st, p', r') \<Rightarrow> (Some st, p', r'))"
  by (simp add: worker_after_def)


lemma HandlePayload_matched:
  assumes "matchHandlerFunc r payload = Returned (Inr rc)"
  shows "HandlePayload deps r sched payload resp conn =
     (let payload1 = payload\<lparr>RequestTag := Some (Tag rc)\<rparr>;
          all_calls = Suc (length (Preprocessors rc));
          (timedOut, k) =
            (case sched of
               WorkerDone \<Rightarrow> (False, all_calls)
             | ParentCancel k \<Rightarrow> (False, k)
             | Deadline k \<Rightarrow>
                 (if 0 < sint (ResponseTimeout r) then (True, k) else (False, all_calls)))
      in case worker_after deps k (Handler rc) (Preprocessors rc) payload1 resp of
           (None, payload', resp') \<Rightarrow> HandlePayload_deferred deps None timedOut 200 resp' conn
         | (Some httpStatus, payload', resp') \<Rightarrow>
             HandlePayload_deferred deps None timedOut httpStatus resp' conn)"
  using assms by (cases sched) (simp_all add: HandlePayload_def getTimeoutChan_eq Let_def)

lemma HandlePayload_is_deferred:
  "\<exists>panicking timedOut httpStatus resp'.
     HandlePayload deps r sched payload resp conn
       = HandlePayload_deferred deps panicking timedOut httpStatus resp' conn"
proof (cases "matchHandlerFunc r payload")
  case (Panicked v)
  then show ?thesis
    by (auto simp: HandlePayload_def)
next
  case (Returned m)
  show ?thesis
  proof (cases m)
    case (Inl err)
    then show ?thesis
      using Returned by (auto simp: HandlePayload_def)
  next
    case (Inr rc)
    then have match: "matchHandlerFunc r payload = Returned (Inr rc)"
      using Returned by simp
    show ?thesis
      unfolding HandlePayload_matched [OF match] Let_def
      by (auto split: prod.splits option.splits)
  qed
qed

lemma goroutine_steps_Gone [simp]:
  "goroutine_steps deps h k (Gone, p, r, st) = (Gone, p, r, st)"
  by (induction k) simp_all

text \<open>
  Left alone, the goroutine is gone after one step for each processor, one for the
  handler and one for the assignment, and \<^verbatim>\<open>httpStatus\<close>, payload and response are
  then what \<^verbatim>\<open>callHandler\<close> returns and leaves.
\<close>

lemma goroutine_runs_loop:
  "goroutine_steps deps h (length pp + 2 + m) (InChain pp st, p, r, st0) =
     (case preprocess_loop (defaultStatusCode deps) pp st p r of
        (Halted s, p', r') \<Rightarrow> (Gone, p', r', s)
      | (Aborted v s, p', r') \<Rightarrow>
          (case callHandler_deferred deps (Some v) s r' of (s', r'') \<Rightarrow> (Gone, p', r'', s'))
      | (Completed s, p', r') \<Rightarrow>
          (case h p' r' of
             (Returned u, p'', r'') \<Rightarrow> (Gone, p'', r'', s)
           | (Panicked v, p'', r'') \<Rightarrow>
               (case callHandler_deferred deps (Some v) s r'' of
                  (s', r3) \<Rightarrow> (Gone, p'', r3, s'))))"
proof (induction pp arbitrary: st p r)
  case Nil
  show ?case
    by (simp add: numeral_2_eq_2 split: prod.splits outcome.splits)
next
  case (Cons x xs)
  obtain out p1 r1 where x: "x p r = (out, p1, r1)"
    by (rule prod_cases3)
  show ?case
  proof (cases out)
    case (Panicked v)
    then show ?thesis
      by (simp add: x numeral_2_eq_2 split: prod.splits)
  next
    case (Returned hint)
    show ?thesis
    proof (cases "Err r1")
      case None
      then show ?thesis
        using Cons.IH [of hint p1 r1] by (simp add: x Returned)
    next
      case (Some e)
      then show ?thesis
        by (simp add: x Returned numeral_2_eq_2)
    qed
  qed
qed

lemma goroutine_runs_callHandler:
  "goroutine_steps deps h (length pp + 2 + m) (InChain pp 200, p, r, st0) =
     (case callHandler deps h pp p r of (st, p', r') \<Rightarrow> (Gone, p', r', st))"
  unfolding goroutine_runs_loop callHandler_def callHandler_body_def
  by (simp split: prod.splits loop_exit.splits outcome.splits)

text \<open>
  When the goroutine makes no step while the deferred function runs, the call is the
  deferred function in one piece on what the goroutine has left so far.
\<close>

lemma HandlePayload_race_in_one_piece:
  assumes "matchHandlerFunc r payload = Returned (Inr rc)"
      and "0 < sint (ResponseTimeout r)"
  shows "HandlePayload_race deps r k 0 0 payload resp conn =
           (case goroutine_steps deps (Handler rc) k
                   (InChain (Preprocessors rc) 200,
                    payload\<lparr>RequestTag := Some (Tag rc)\<rparr>, resp, 200) of
              (g1, payload1, resp1, httpStatus1) \<Rightarrow>
                HandlePayload_deferred deps None True httpStatus1 resp1 conn)"
  using assms
  by (simp add: HandlePayload_race_def getTimeoutChan_eq HandlePayload_deferred_def
        deferred_finish_def split: prod.splits option.splits outcome.splits)

text \<open>
  C6. Whatever way the deferred function of \<^verbatim>\<open>HandlePayload\<close> has run once on a
  \<^verbatim>\<open>Response\<close>, the write target of that \<^verbatim>\<open>Response\<close> is \<^verbatim>\<open>nil\<close> afterwards. A
  second run on it, with any captured status and time-out flag, returns at the
  \<^verbatim>\<open>writer == nil\<close> test: the connection's writer is left exactly as the first run left
  it, no panic is raised, and (when there is no panic to recover) the \<^verbatim>\<open>Response\<close> is
  unchanged too. In particular this holds for the \<^verbatim>\<open>Response\<close> and the connection
  that any call of \<^verbatim>\<open>HandlePayload\<close> leaves behind.
\<close>

theorem finalize_once:
  "writer (fin_resp (HandlePayload_deferred deps recovered timedOut httpStatus resp conn)) = None
   \<and> HandlePayload_deferred deps None timedOut' httpStatus'
        (fin_resp (HandlePayload_deferred deps recovered timedOut httpStatus resp conn))
        (fin_conn (HandlePayload_deferred deps recovered timedOut httpStatus resp conn))
       = \<lparr>fin_resp = fin_resp (HandlePayload_deferred deps recovered timedOut httpStatus resp conn),
          fin_conn = fin_conn (HandlePayload_deferred deps recovered timedOut httpStatus resp conn),
          fin_panic = None\<rparr>
   \<and> fin_conn (HandlePayload_deferred deps recovered' timedOut' httpStatus'
        (fin_resp (HandlePayload_deferred deps recovered timedOut httpStatus resp conn))
        (fin_conn (HandlePayload_deferred deps recovered timedOut httpStatus resp conn)))
       = fin_conn (HandlePayload_deferred deps recovered timedOut httpStatus resp conn)
   \<and> fin_panic (HandlePayload_deferred deps recovered' timedOut' httpStatus'
        (fin_resp (HandlePayload_deferred deps recovered timedOut httpStatus resp conn))
        (fin_conn (HandlePayload_deferred deps recovered timedOut httpStatus resp conn)))
       = None
   \<and> writer (fin_resp (HandlePayload deps r sched payload resp conn)) = None
   \<and> fin_conn (HandlePayload_deferred deps recovered' timedOut' httpStatus'
        (fin_resp (HandlePayload deps r sched payload resp conn))
        (fin_conn (HandlePayload deps r sched payload resp conn)))
       = fin_conn (HandlePayload deps r sched payload resp conn)
   \<and> fin_panic (HandlePayload_deferred deps recovered' timedOut' httpStatus'
        (fin_resp (HandlePayload deps r sched payload resp conn))
        (fin_conn (HandlePayload deps r sched payload resp conn)))
       = None"
proof -
  have nil: "writer (fin_resp (HandlePayload_deferred deps rec t st resp0 conn)) = None"
    for rec t st resp0
  proof (cases "writer resp0")
    case None
    then show ?thesis
      by (cases "go_recover rec") (simp_all add: deferred_already_written)
  next
    case (Some w)
    show ?thesis
      by (cases "go_recover rec")
         (simp_all add: deferred_writes [OF Some] final_resp_def Let_def split: option.splits)
  qed
  obtain rec t st resp0 where
    eq: "HandlePayload deps r sched payload resp conn
           = HandlePayload_deferred deps rec t st resp0 conn"
    using HandlePayload_is_deferred by blast
  have nil': "writer (fin_resp (HandlePayload deps r sched payload resp conn)) = None"
    unfolding eq by (rule nil)
  show ?thesis
    using nil [of recovered timedOut httpStatus resp] nil'
    by (simp add: deferred_already_written go_recover_def)
qed

theorem finalize_once_witness:
  "bodies (fin_conn (HandlePayload_deferred example_deps None False 200
             (example_resp\<lparr>Result := Some ''done''\<rparr>) example_conn))
     = [\<lparr>json_error = None, json_result = Some ''done''\<rparr>]
   \<and> bodies (fin_conn (HandlePayload_deferred example_deps (Some (PanicOther ''late'')) True 500
        (fin_resp (HandlePayload_deferred example_deps None False 200
             (example_resp\<lparr>Result := Some ''done''\<rparr>) example_conn))
        (fin_conn (HandlePayload_deferred example_deps None False 200
             (example_resp\<lparr>Result := Some ''done''\<rparr>) example_conn))))
     = [\<lparr>json_error = None, json_result = Some ''done''\<rparr>]"
proof -
  have target: "writer (example_resp\<lparr>Result := Some ''done''\<rparr>) = Some ConnWriter"
    by (simp add: example_resp_def)
  have first: "bodies (fin_conn (HandlePayload_deferred example_deps None False 200
             (example_resp\<lparr>Result := Some ''done''\<rparr>) example_conn))
     = [\<lparr>json_error = None, json_result = Some ''done''\<rparr>]"
    unfolding deferred_writes [OF target]
    by (simp add: final_resp_def final_status_def go_recover_def
          entity_of_def example_resp_def example_conn_def example_deps_def Let_def)
  note t = finalize_once [where deps = example_deps and recovered = None and timedOut = False
             and httpStatus = 200 and resp = "example_resp\<lparr>Result := Some ''done''\<rparr>"
             and conn = example_conn and recovered' = "Some (PanicOther ''late'')"
             and timedOut' = True and httpStatus' = 500]
  from t first show ?thesis by simp
qed

text \<open>
  When the timer case is taken and the goroutine makes no step while the deferred
  function runs, the error of the finalized \<^verbatim>\<open>Response\<close> is the fixed
  \<^verbatim>\<open>ResponseTimeout\<close> error, whatever error the goroutine had set before.
\<close>

lemma deadline_in_one_piece:
  assumes "matchHandlerFunc r payload = Returned (Inr rc)"
      and "0 < sint (ResponseTimeout r)"
      and "writer (fst (snd (snd (goroutine_steps deps (Handler rc) k
                   (InChain (Preprocessors rc) 200,
                    payload\<lparr>RequestTag := Some (Tag rc)\<rparr>, resp, 200))))) = Some w"
  shows "Err (fin_resp (HandlePayload_race deps r k 0 0 payload resp conn))
           = Some (skyerr_NewError skyerr_ResponseTimeout ''Service taking too long to respond.'')"
proof -
  obtain g1 payload1 resp1 httpStatus1 where
    g: "goroutine_steps deps (Handler rc) k
          (InChain (Preprocessors rc) 200, payload\<lparr>RequestTag := Some (Tag rc)\<rparr>, resp, 200)
        = (g1, payload1, resp1, httpStatus1)"
    by (rule prod_cases4)
  with assms(3) have target: "writer resp1 = Some w"
    by simp
  show ?thesis
    unfolding HandlePayload_race_in_one_piece [OF assms(1,2)] g
    by (simp add: deferred_writes [OF target] final_resp_def go_recover_def Let_def
             split: option.splits)
qed

text \<open>
  C1 at the failing input. The time-out is 50 ms and the route has the processors
  \<open>pass_processor\<close> and \<open>deny_processor\<close>. The timer case is taken after the first
  processor has returned: the goroutine is still inside \<^verbatim>\<open>callHandler\<close>, about to call
  the second one. The deferred function overrides \<^verbatim>\<open>resp.Err\<close> with the time-out
  error (line 84); then the second processor runs and stores its own error in the same
  \<^verbatim>\<open>Response\<close>; then the deferred function resolves the status from \<^verbatim>\<open>resp.Err\<close>
  (line 91) and encodes the \<^verbatim>\<open>Response\<close> (line 96). The status written is 401 and
  the error written is the processor's, not the time-out error. If the processor's
  step falls between \<^verbatim>\<open>WriteHeader\<close> and the encoding instead, the status is that of
  the time-out, 503, and the error written is still the processor's. With
  \<open>teapot_processor\<close> as the second processor, whose call has returned status 418 when
  the timer case is taken, and the assignment of that status to \<^verbatim>\<open>httpStatus\<close>
  falling after the override, the time-out error is written under the goroutine's
  status 418.
\<close>

theorem deadline_race_writes_worker_error:
  "getTimeoutChan 50000000 = time_After 50000000
   \<and> fst (goroutine_steps example_deps ok_handler 1
            (InChain [pass_processor, deny_processor] 200,
             example_payload\<lparr>RequestTag := Some ''me''\<rparr>, example_resp, 200))
       = InChain [deny_processor] 200
   \<and> statuses (fin_conn (HandlePayload_race example_deps
        (example_router [pass_processor, deny_processor] ok_handler 50000000)
        1 1 0 example_payload example_resp example_conn)) = [401]
   \<and> bodies (fin_conn (HandlePayload_race example_deps
        (example_router [pass_processor, deny_processor] ok_handler 50000000)
        1 1 0 example_payload example_resp example_conn))
       = [\<lparr>json_error = Some (skyerr_NewError (skyerr_OtherCode 101) ''not authenticated''),
           json_result = None\<rparr>]
   \<and> Err (fin_resp (HandlePayload_race example_deps
        (example_router [pass_processor, deny_processor] ok_handler 50000000)
        1 1 0 example_payload example_resp example_conn))
       = Some (skyerr_NewError (skyerr_OtherCode 101) ''not authenticated'')
   \<and> statuses (fin_conn (HandlePayload_race example_deps
        (example_router [pass_processor, deny_processor] ok_handler 50000000)
        1 0 1 example_payload example_resp example_conn)) = [503]
   \<and> bodies (fin_conn (HandlePayload_race example_deps
        (example_router [pass_processor, deny_processor] ok_handler 50000000)
        1 0 1 example_payload example_resp example_conn))
       = [\<lparr>json_error = Some (skyerr_NewError (skyerr_OtherCode 101) ''not authenticated''),
           json_result = None\<rparr>]
   \<and> fst (goroutine_steps example_deps ok_handler 2
            (InChain [pass_processor, teapot_processor] 200,
             example_payload\<lparr>RequestTag := Some ''me''\<rparr>, example_resp, 200))
       = Returning 418
   \<and> statuses (fin_conn (HandlePayload_race example_deps
        (example_router [pass_processor, teapot_processor] ok_handler 50000000)
        2 1 0 example_payload example_resp example_conn)) = [418]
   \<and> bodies (fin_conn (HandlePayload_race example_deps
        (example_router [pass_processor, teapot_processor] ok_handler 50000000)
        2 1 0 example_payload example_resp example_conn))
       = [\<lparr>json_error = Some (skyerr_NewError skyerr_ResponseTimeout
                              ''Service taking too long to respond.''),
           json_result = None\<rparr>]"
proof -
  have armed: "getTimeoutChan 50000000 = time_After 50000000"
    by (simp add: getTimeoutChan_eq)
  note defs = HandlePayload_race_def armed numeral_2_eq_2
    callHandler_deferred_def go_recover_def deferred_begin_def deferred_status_def
    deferred_write_def Writer_def Header_Set_def WriteHeader_def writeEntity_def entity_of_def
    example_router_def example_payload_def example_resp_def example_conn_def example_deps_def
    pass_processor_def deny_processor_def teapot_processor_def ok_handler_def Let_def
  have a: "fst (goroutine_steps example_deps ok_handler 1
            (InChain [pass_processor, deny_processor] 200,
             example_payload\<lparr>RequestTag := Some ''me''\<rparr>, example_resp, 200))
       = InChain [deny_processor] 200"
    by (simp add: pass_processor_def example_resp_def)
  have b: "HandlePayload_race example_deps
        (example_router [pass_processor, deny_processor] ok_handler 50000000)
        1 1 0 example_payload example_resp example_conn
      = \<lparr>fin_resp = \<lparr>Err = Some (skyerr_NewError (skyerr_OtherCode 101) ''not authenticated''),
                      Result = None, writer = None\<rparr>,
         fin_conn = \<lparr>header = [''Content-Type'' \<mapsto> ''application/json''],
                      statuses = [401],
                      bodies = [\<lparr>json_error = Some (skyerr_NewError (skyerr_OtherCode 101)
                                                        ''not authenticated''),
                                 json_result = None\<rparr>]\<rparr>,
         fin_panic = None\<rparr>"
    by (simp add: defs)
  have c: "HandlePayload_race example_deps
        (example_router [pass_processor, deny_processor] ok_handler 50000000)
        1 0 1 example_payload example_resp example_conn
      = \<lparr>fin_resp = \<lparr>Err = Some (skyerr_NewError (skyerr_OtherCode 101) ''not authenticated''),
                      Result = None, writer = None\<rparr>,
         fin_conn = \<lparr>header = [''Content-Type'' \<mapsto> ''application/json''],
                      statuses = [503],
                      bodies = [\<lparr>json_error = Some (skyerr_NewError (skyerr_OtherCode 101)
                                                        ''not authenticated''),
                                 json_result = None\<rparr>]\<rparr>,
         fin_panic = None\<rparr>"
    by (simp add: defs)
  have d: "fst (goroutine_steps example_deps ok_handler 2
            (InChain [pass_processor, teapot_processor] 200,
             example_payload\<lparr>RequestTag := Some ''me''\<rparr>, example_resp, 200))
       = Returning 418"
    by (simp add: numeral_2_eq_2 pass_processor_def teapot_processor_def example_resp_def)
  have e: "HandlePayload_race example_deps
        (example_router [pass_processor, teapot_processor] ok_handler 50000000)
        2 1 0 example_payload example_resp example_conn
      = \<lparr>fin_resp = \<lparr>Err = Some (skyerr_NewError skyerr_ResponseTimeout
                                    ''Service taking too long to respond.''),
                      Result = None, writer = None\<rparr>,
         fin_conn = \<lparr>header = [''Content-Type'' \<mapsto> ''application/json''],
                      statuses = [418],
                      bodies = [\<lparr>json_error = Some (skyerr_NewError skyerr_ResponseTimeout
                                                        ''Service taking too long to respond.''),
                                 json_result = None\<rparr>]\<rparr>,
         fin_panic = None\<rparr>"
    by (simp add: defs)
  from armed a show ?thesis
    unfolding b c e by (simp add: d)
qed

lemma deferred_keeps_response:
  "Err (fin_resp (HandlePayload_deferred deps None False httpStatus resp conn)) = Err resp
   \<and> Result (fin_resp (HandlePayload_deferred deps None False httpStatus resp conn)) = Result resp"
proof (cases "writer resp")
  case None
  then show ?thesis by (simp add: deferred_already_written go_recover_def)
next
  case (Some w)
  show ?thesis
    by (simp add: deferred_writes [OF Some] final_resp_def go_recover_def Let_def
             split: option.splits)
qed

text \<open>
  C7. \<^verbatim>\<open>getTimeoutChan\<close> returns \<^verbatim>\<open>time.After(d)\<close> exactly when \<open>d\<close> is positive, and
  otherwise a channel on which nothing is ever sent. With a non-positive time-out the
  timer case of the \<^verbatim>\<open>select\<close> cannot be taken, whenever the configured time would
  have elapsed: \<^verbatim>\<open>HandlePayload\<close> waits for the goroutine and finalizes what
  \<^verbatim>\<open>callHandler\<close> left, with the time-out flag unset. Error and result of the finalized
  \<^verbatim>\<open>Response\<close> are the ones the handler left, and if the write target is there and the
  encoder succeeds, the one body written is that \<^verbatim>\<open>Response\<close>, with the status
  \<^verbatim>\<open>callHandler\<close> returned (or, for an error left under a 2xx status, the status the
  error maps to); a status outside 100..999 is refused by \<^verbatim>\<open>WriteHeader\<close>, which panics
  before anything is written.
\<close>

theorem deadline_disabled:
  "getTimeoutChan d = (if 0 < sint d then time_After d else make_chan)
   \<and> (sint (ResponseTimeout r) \<le> 0
        \<and> matchHandlerFunc r payload = Returned (Inr rc)
        \<and> callHandler deps (Handler rc) (Preprocessors rc)
              (payload\<lparr>RequestTag := Some (Tag rc)\<rparr>) resp = (st, p', resp')
      \<longrightarrow> HandlePayload deps r (Deadline k) payload resp conn
            = HandlePayload_deferred deps None False st resp' conn
        \<and> HandlePayload deps r WorkerDone payload resp conn
            = HandlePayload_deferred deps None False st resp' conn
        \<and> Err (fin_resp (HandlePayload deps r (Deadline k) payload resp conn)) = Err resp'
        \<and> Result (fin_resp (HandlePayload deps r (Deadline k) payload resp conn)) = Result resp'
        \<and> (writer resp' = Some ConnWriter \<and> encodeError deps (entity_of resp') = None
            \<longrightarrow> (if final_status deps st resp' < 100 \<or> 999 < final_status deps st resp'
                 then bodies (fin_conn (HandlePayload deps r (Deadline k) payload resp conn))
                        = bodies conn
                    \<and> statuses (fin_conn (HandlePayload deps r (Deadline k) payload resp conn))
                        = statuses conn
                    \<and> fin_panic (HandlePayload deps r (Deadline k) payload resp conn)
                        = Some invalid_WriteHeader_code
                 else bodies (fin_conn (HandlePayload deps r (Deadline k) payload resp conn))
                        = bodies conn @ [\<lparr>json_error = Err resp', json_result = Result resp'\<rparr>]
                    \<and> statuses (fin_conn (HandlePayload deps r (Deadline k) payload resp conn))
                        = statuses conn @
                            [case Err resp' of
                               Some e \<Rightarrow> if 200 \<le> st \<and> st \<le> 299
                                         then defaultStatusCode deps e else st
                             | None \<Rightarrow> st]
                    \<and> fin_panic (HandlePayload deps r (Deadline k) payload resp conn) = None)))"
proof (intro conjI impI)
  show "getTimeoutChan d = (if 0 < sint d then time_After d else make_chan)"
    by (rule getTimeoutChan_eq)
next
  assume H: "sint (ResponseTimeout r) \<le> 0
        \<and> matchHandlerFunc r payload = Returned (Inr rc)
        \<and> callHandler deps (Handler rc) (Preprocessors rc)
              (payload\<lparr>RequestTag := Some (Tag rc)\<rparr>) resp = (st, p', resp')"
  then have off: "\<not> 0 < sint (ResponseTimeout r)"
    and match: "matchHandlerFunc r payload = Returned (Inr rc)"
    and ran: "callHandler deps (Handler rc) (Preprocessors rc)
              (payload\<lparr>RequestTag := Some (Tag rc)\<rparr>) resp = (st, p', resp')"
    by simp_all
  show dl: "HandlePayload deps r (Deadline k) payload resp conn
            = HandlePayload_deferred deps None False st resp' conn"
    by (simp add: HandlePayload_matched [OF match] off worker_after_all ran)
  show "HandlePayload deps r WorkerDone payload resp conn
            = HandlePayload_deferred deps None False st resp' conn"
    by (simp add: HandlePayload_matched [OF match] worker_after_all ran)
  show "Err (fin_resp (HandlePayload deps r (Deadline k) payload resp conn)) = Err resp'"
    by (simp add: dl deferred_keeps_response)
  show "Result (fin_resp (HandlePayload deps r (Deadline k) payload resp conn)) = Result resp'"
    by (simp add: dl deferred_keeps_response)
  assume W: "writer resp' = Some ConnWriter \<and> encodeError deps (entity_of resp') = None"
  then have target: "writer resp' = Some ConnWriter"
    and enc: "encodeError deps (entity_of resp') = None"
    by simp_all
  have fr: "final_resp deps None False resp' = resp'\<lparr>writer := None\<rparr>"
    by (simp add: final_resp_def go_recover_def)
  have ent: "entity_of (resp'\<lparr>writer := None\<rparr>) = entity_of resp'"
    by (simp add: entity_of_def)
  have fs: "final_status deps st (resp'\<lparr>writer := None\<rparr>) = final_status deps st resp'"
    by (simp add: final_status_def)
  show "if final_status deps st resp' < 100 \<or> 999 < final_status deps st resp'
        then bodies (fin_conn (HandlePayload deps r (Deadline k) payload resp conn))
               = bodies conn
           \<and> statuses (fin_conn (HandlePayload deps r (Deadline k) payload resp conn))
               = statuses conn
           \<and> fin_panic (HandlePayload deps r (Deadline k) payload resp conn)
               = Some invalid_WriteHeader_code
        else bodies (fin_conn (HandlePayload deps r (Deadline k) payload resp conn))
               = bodies conn @ [\<lparr>json_error = Err resp', json_result = Result resp'\<rparr>]
           \<and> statuses (fin_conn (HandlePayload deps r (Deadline k) payload resp conn))
               = statuses conn @
                   [case Err resp' of
                      Some e \<Rightarrow> if 200 \<le> st \<and> st \<le> 299
                                then defaultStatusCode deps e else st
                    | None \<Rightarrow> st]
           \<and> fin_panic (HandlePayload deps r (Deadline k) payload resp conn) = None"
    unfolding dl deferred_writes [OF target] fr Let_def ent fs
    using enc by (simp add: entity_of_def final_status_def)
qed

theorem deadline_disabled_witness:
  "getTimeoutChan 50000000 = time_After 50000000
   \<and> getTimeoutChan 0 = make_chan
   \<and> getTimeoutChan (- 1) = make_chan
   \<and> bodies (fin_conn (HandlePayload example_deps (example_router [pass_processor] ok_handler 0)
        (Deadline 0) example_payload example_resp example_conn))
     = [\<lparr>json_error = None, json_result = Some ''done''\<rparr>]
   \<and> statuses (fin_conn (HandlePayload example_deps (example_router [pass_processor] ok_handler 0)
        (Deadline 0) example_payload example_resp example_conn)) = [200]"
proof -
  let ?r = "example_router [pass_processor] ok_handler 0"
  let ?rc = "\<lparr>Tag = ''me'', Preprocessors = [pass_processor], Handler = ok_handler\<rparr>"
  let ?p = "example_payload\<lparr>RequestTag := Some ''me''\<rparr>"
  let ?resp = "example_resp\<lparr>Result := Some ''done''\<rparr>"
  have a: "getTimeoutChan 50000000 = time_After 50000000"
    using deadline_disabled [of 50000000] by simp
  have b: "getTimeoutChan 0 = make_chan"
    using deadline_disabled [of 0] by simp
  have c: "getTimeoutChan (- 1) = make_chan"
    using deadline_disabled [of "- 1"] by simp
  have off: "sint (ResponseTimeout ?r) \<le> 0"
    by (simp add: example_router_def)
  have match: "matchHandlerFunc ?r example_payload = Returned (Inr ?rc)"
    by (simp add: example_router_def example_payload_def)
  have ran: "callHandler example_deps (Handler ?rc) (Preprocessors ?rc)
                (example_payload\<lparr>RequestTag := Some (Tag ?rc)\<rparr>) example_resp = (200, ?p, ?resp)"
    by (simp add: callHandler_def callHandler_body_def pass_processor_def ok_handler_def
          example_resp_def)
  have target: "writer ?resp = Some ConnWriter \<and> encodeError example_deps (entity_of ?resp) = None"
    by (simp add: example_resp_def example_deps_def)
  have valid: "final_status example_deps 200 ?resp = 200"
    by (simp add: final_status_def example_resp_def)
  note t = deadline_disabled [of 0 ?r example_payload ?rc example_deps example_resp 200 ?p ?resp 0
             example_conn, THEN conjunct2, THEN mp, OF conjI [OF off conjI [OF match ran]]]
  note u = t [THEN conjunct2, THEN conjunct2, THEN conjunct2, THEN conjunct2, THEN mp, OF target,
              unfolded valid]
  from u have d: "bodies (fin_conn (HandlePayload example_deps ?r (Deadline 0)
                     example_payload example_resp example_conn))
     = [\<lparr>json_error = None, json_result = Some ''done''\<rparr>]"
    by (simp add: example_resp_def example_conn_def)
  from u have e: "statuses (fin_conn (HandlePayload example_deps ?r (Deadline 0)
                     example_payload example_resp example_conn)) = [200]"
    by (simp add: example_resp_def example_conn_def)
  from a b c d e show ?thesis by simp
qed

section \<open>Properties of panics and of the decode failure path\<close>








lemma ServeHTTP_decode_failure:
  assumes "payloadFunc r req = Returned (Inl err)"
  shows "ServeHTTP deps r sched w req =
           (if defaultStatusCode deps (NewRequestJSONInvalidErr deps err) < 100
               \<or> 999 < defaultStatusCode deps (NewRequestJSONInvalidErr deps err)
            then \<lparr>fin_resp = \<lparr>Err = Some (NewRequestJSONInvalidErr deps err), Result = None,
                              writer = Some ConnWriter\<rparr>,
                  fin_conn = w\<lparr>header := (header w)(''Server'' \<mapsto>
                                   ''Skygear Server/'' @ TrimPrefix (skyversion_Version deps) ''v'')\<rparr>,
                  fin_panic = Some invalid_WriteHeader_code\<rparr>
            else \<lparr>fin_resp = \<lparr>Err = Some (NewRequestJSONInvalidErr deps err), Result = None,
                              writer = Some ConnWriter\<rparr>,
                  fin_conn = w\<lparr>header := (header w)(''Server'' \<mapsto>
                                   ''Skygear Server/'' @ TrimPrefix (skyversion_Version deps) ''v''),
                              statuses := statuses w
                                @ [defaultStatusCode deps (NewRequestJSONInvalidErr deps err)]\<rparr>,
                  fin_panic = None\<rparr>)"
  using assms by (simp add: ServeHTTP_def Header_Set_def WriteHeader_def Let_def)

lemma deferred_content_type:
  "statuses (fin_conn (HandlePayload_deferred deps panicking timedOut httpStatus resp conn))
       = statuses conn
     \<and> bodies (fin_conn (HandlePayload_deferred deps panicking timedOut httpStatus resp conn))
       = bodies conn
   \<or> header (fin_conn (HandlePayload_deferred deps panicking timedOut httpStatus resp conn))
       ''Content-Type'' = Some ''application/json''"
proof (cases "writer resp")
  case None
  then show ?thesis by (simp add: deferred_already_written)
next
  case (Some w)
  show ?thesis
    by (simp add: deferred_writes [OF Some] Let_def split: option.splits)
qed

text \<open>
  Whenever \<^verbatim>\<open>HandlePayload\<close> writes a status or a body to the connection, on any
  path (route not found, processor error, recovered panic, time-out, success), the
  connection's \<^verbatim>\<open>Content-Type\<close> header is \<^verbatim>\<open>application/json\<close>.
\<close>

theorem HandlePayload_content_type:
  "statuses (fin_conn (HandlePayload deps r sched payload resp conn)) \<noteq> statuses conn
     \<or> bodies (fin_conn (HandlePayload deps r sched payload resp conn)) \<noteq> bodies conn
   \<longrightarrow> header (fin_conn (HandlePayload deps r sched payload resp conn)) ''Content-Type''
         = Some ''application/json''"
proof -
  obtain rec t st resp' where
    eq: "HandlePayload deps r sched payload resp conn = HandlePayload_deferred deps rec t st resp' conn"
    using HandlePayload_is_deferred by blast
  show ?thesis
    unfolding eq using deferred_content_type [of deps rec t st resp' conn] by auto
qed

theorem HandlePayload_content_type_witness:
  "statuses (fin_conn (HandlePayload example_deps (example_router [deny_processor] ok_handler 0)
       WorkerDone example_payload example_resp example_conn)) = [401]
   \<and> header (fin_conn (HandlePayload example_deps (example_router [deny_processor] ok_handler 0)
       WorkerDone example_payload example_resp example_conn)) ''Content-Type''
     = Some ''application/json''"
proof -
  have st: "statuses (fin_conn (HandlePayload example_deps (example_router [deny_processor] ok_handler 0)
       WorkerDone example_payload example_resp example_conn)) = [401]"
    by (simp add: HandlePayload_def worker_after_def callHandler_def callHandler_body_def
          callHandler_deferred_def go_recover_def
          HandlePayload_deferred_def deferred_begin_def deferred_finish_def deferred_status_def
          deferred_write_def Writer_def Header_Set_def WriteHeader_def writeEntity_def
          example_router_def example_payload_def example_resp_def example_conn_def
          example_deps_def deny_processor_def Let_def)
  have "statuses example_conn = []"
    by (simp add: example_conn_def)
  with st HandlePayload_content_type [of example_deps "example_router [deny_processor] ok_handler 0"
            WorkerDone example_payload example_resp example_conn]
  show ?thesis by simp
qed

text \<open>
  When the matcher returns an error and the write target is there, \<^verbatim>\<open>HandlePayload\<close>
  runs no processor and no handler: it stores an \<^verbatim>\<open>UndefinedOperation\<close> error with the
  matcher's message and writes status 404 with that error as the body.
\<close>

theorem HandlePayload_route_not_found:
  "matchHandlerFunc r payload = Returned (Inl err) \<and> writer resp = Some ConnWriter
   \<longrightarrow> fin_resp (HandlePayload deps r sched payload resp conn)
         = resp\<lparr>Err := Some (skyerr_NewError skyerr_UndefinedOperation err), writer := None\<rparr>
     \<and> statuses (fin_conn (HandlePayload deps r sched payload resp conn)) = statuses conn @ [404]
     \<and> header (fin_conn (HandlePayload deps r sched payload resp conn)) ''Content-Type''
         = Some ''application/json''
     \<and> (encodeError deps \<lparr>json_error = Some (skyerr_NewError skyerr_UndefinedOperation err),
                           json_result = Result resp\<rparr> = None
        \<longrightarrow> bodies (fin_conn (HandlePayload deps r sched payload resp conn))
              = bodies conn @ [\<lparr>json_error = Some (skyerr_NewError skyerr_UndefinedOperation err),
                                json_result = Result resp\<rparr>])"
proof (intro impI)
  assume H: "matchHandlerFunc r payload = Returned (Inl err) \<and> writer resp = Some ConnWriter"
  let ?resp = "resp\<lparr>Err := Some (skyerr_NewError skyerr_UndefinedOperation err)\<rparr>"
  have eq: "HandlePayload deps r sched payload resp conn
              = HandlePayload_deferred deps None False 404 ?resp conn"
    using H by (simp add: HandlePayload_def)
  have target: "writer ?resp = Some ConnWriter"
    using H by simp
  have fr: "final_resp deps None False ?resp = ?resp\<lparr>writer := None\<rparr>"
    by (simp add: final_resp_def go_recover_def)
  have fs: "final_status deps 404 (?resp\<lparr>writer := None\<rparr>) = 404"
    by (simp add: final_status_def)
  show "fin_resp (HandlePayload deps r sched payload resp conn)
         = resp\<lparr>Err := Some (skyerr_NewError skyerr_UndefinedOperation err), writer := None\<rparr>
     \<and> statuses (fin_conn (HandlePayload deps r sched payload resp conn)) = statuses conn @ [404]
     \<and> header (fin_conn (HandlePayload deps r sched payload resp conn)) ''Content-Type''
         = Some ''application/json''
     \<and> (encodeError deps \<lparr>json_error = Some (skyerr_NewError skyerr_UndefinedOperation err),
                           json_result = Result resp\<rparr> = None
        \<longrightarrow> bodies (fin_conn (HandlePayload deps r sched payload resp conn))
              = bodies conn @ [\<lparr>json_error = Some (skyerr_NewError skyerr_UndefinedOperation err),
                                json_result = Result resp\<rparr>])"
    unfolding eq deferred_writes [OF target] fr Let_def fs
    by (simp add: entity_of_def split: option.splits)
qed

theorem HandlePayload_route_not_found_witness:
  "statuses (fin_conn (HandlePayload example_deps (example_router [pass_processor] ok_handler 0)
       WorkerDone \<lparr>Data = ''action=none'', RequestTag = None\<rparr> example_resp example_conn)) = [404]
   \<and> bodies (fin_conn (HandlePayload example_deps (example_router [pass_processor] ok_handler 0)
       WorkerDone \<lparr>Data = ''action=none'', RequestTag = None\<rparr> example_resp example_conn))
     = [\<lparr>json_error = Some (skyerr_NewError skyerr_UndefinedOperation ''route unmatched''),
         json_result = None\<rparr>]"
proof -
  let ?r = "example_router [pass_processor] ok_handler 0"
  let ?p = "\<lparr>Data = ''action=none'', RequestTag = None\<rparr>"
  have H: "matchHandlerFunc ?r ?p = Returned (Inl ''route unmatched'')
           \<and> writer example_resp = Some ConnWriter"
    by (simp add: example_router_def example_resp_def)
  note t = HandlePayload_route_not_found [of ?r ?p "''route unmatched''" example_resp example_deps
             WorkerDone example_conn, THEN mp, OF H]
  from t show ?thesis
    by (simp add: example_deps_def example_resp_def example_conn_def)
qed

text \<open>
  C4 at the failing input. The decoder rejects the request \<open>{\<close>. \<^verbatim>\<open>ServeHTTP\<close> writes
  the status of the decode error and returns: of the headers only \<^verbatim>\<open>Server\<close> is set,
  \<^verbatim>\<open>Content-Type\<close> is not.
\<close>

theorem decode_failure_sets_no_content_type:
  "statuses (fin_conn (ServeHTTP example_deps (example_router [] ok_handler 0) WorkerDone
       example_conn ''{'')) = [400]
   \<and> header (fin_conn (ServeHTTP example_deps (example_router [] ok_handler 0) WorkerDone
       example_conn ''{'')) ''Content-Type'' = None
   \<and> header (fin_conn (ServeHTTP example_deps (example_router [] ok_handler 0) WorkerDone
       example_conn ''{'')) ''Server'' = Some ''Skygear Server/1.7.0''"
proof -
  have "payloadFunc (example_router [] ok_handler 0) ''{''
          = Returned (Inl ''unexpected end of JSON input'')"
    by (simp add: example_router_def)
  from ServeHTTP_decode_failure [OF this] show ?thesis
    by (simp add: example_deps_def example_conn_def TrimPrefix_def)
qed

text \<open>
  C5 at the failing input. On the same request \<^verbatim>\<open>ServeHTTP\<close> stores the decode error
  in \<^verbatim>\<open>resp.Err\<close>, writes its status once and returns; the \<^verbatim>\<open>Response\<close> is never
  encoded, so no body reaches the connection.
\<close>

theorem decode_failure_writes_no_body:
  "Err (fin_resp (ServeHTTP example_deps (example_router [] ok_handler 0) WorkerDone
       example_conn ''{''))
     = Some (skyerr_NewError (skyerr_OtherCode 107)
               ''fails to decode the request payload: unexpected end of JSON input'')
   \<and> statuses (fin_conn (ServeHTTP example_deps (example_router [] ok_handler 0) WorkerDone
       example_conn ''{'')) = [400]
   \<and> bodies (fin_conn (ServeHTTP example_deps (example_router [] ok_handler 0) WorkerDone
       example_conn ''{'')) = []
   \<and> fin_panic (ServeHTTP example_deps (example_router [] ok_handler 0) WorkerDone
       example_conn ''{'') = None"
proof -
  have "payloadFunc (example_router [] ok_handler 0) ''{''
          = Returned (Inl ''unexpected end of JSON input'')"
    by (simp add: example_router_def)
  from ServeHTTP_decode_failure [OF this] show ?thesis
    by (simp add: example_deps_def example_conn_def)
qed

end
